theory Spec2Isabelle
  imports Main
begin

section \<open>Castro: the Lua interpreter pool, the compiled registry and the player bridge\<close>

text \<open>
  The development embeds \<^verbatim>\<open>app/lua/state.go\<close> (the registry of compiled units and
  the pool of interpreter instances) and the player bindings (constructor, bound methods)
  of package \<^verbatim>\<open>lua\<close>. Go errors are message strings, a Go \<^verbatim>\<open>map\<close> is a map
  \<open>'k \<rightharpoonup> 'v\<close>, a slice is a list, a \<^verbatim>\<open>*glua.LState\<close> is an address into an explicit
  heap. Calls that leave the package (file system, database, the Lua library) are fields of
  a record of collaborators that every operation receives.
\<close>

subsection \<open>Strings\<close>

type_synonym error = string

text \<open>
  \<^verbatim>\<open>strings.ToLower\<close> is a collaborator of the operations (a field of the record
  below). \<open>toLowerASCII\<close> is what it computes on a string of ASCII bytes, the branch the
  Go function takes when no byte is 0x80 or above: the bytes \<open>A\<close> .. \<open>Z\<close> (65 .. 90)
  move to \<open>a\<close> .. \<open>z\<close>, every other byte is kept. The installations on which the
  operations are run below have ASCII paths and supply this function.
\<close>

definition isUpperByte :: "char \<Rightarrow> bool" where
  "isUpperByte c = (65 \<le> (of_char c :: nat) \<and> (of_char c :: nat) \<le> 90)"

definition toLowerByte :: "char \<Rightarrow> char" where
  "toLowerByte c = (if isUpperByte c then char_of (of_char c + 32 :: nat) else c)"

definition toLowerASCII :: "string \<Rightarrow> string" where
  "toLowerASCII s = map toLowerByte s"

subsection \<open>Lua values and interpreter instances\<close>

record player =
  ID :: int
  Account_id :: int
  Name :: string
  Vocation :: int
  Sex :: int
  Town_id :: int
  Level :: int

text \<open>
  \<^verbatim>\<open>lua.LValue\<close>. A number carries the integer that \<^verbatim>\<open>L.ToInt\<close> and
  \<^verbatim>\<open>L.ToInt64\<close> read from it; a user datum carries the \<^verbatim>\<open>*models.Player\<close> stored
  in its \<^verbatim>\<open>Value\<close> (\<open>None\<close> is the nil pointer); a table is its list of fields.
\<close>

datatype lvalue =
    LNil
  | LBool bool
  | LNumber int
  | LString string
  | LUserData "player option"
  | LFunction string
  | LTable "(string \<times> lvalue) list"

text \<open>
  An interpreter instance, as far as the pool reads it: the registry of type metatables
  (\<^verbatim>\<open>GetTypeMetatable\<close>), each a table from field names to values.
\<close>

record lstate =
  typeMetatable :: "string \<rightharpoonup> (string \<rightharpoonup> lvalue)"

definition NewState :: lstate where
  "NewState = \<lparr>typeMetatable = Map.empty\<rparr>"

record heap =
  cells :: "nat \<rightharpoonup> lstate"
  nextAddr :: nat

text \<open>
  What \<^verbatim>\<open>state.go\<close> calls outside itself: \<^verbatim>\<open>strings.ToLower\<close>, the two names
  of the database metatable (constants of the package declared in another file),
  \<^verbatim>\<open>GetApplicationState\<close>,
  \<^verbatim>\<open>(*LState).DoFile\<close>, \<^verbatim>\<open>CompileLua\<close>, \<^verbatim>\<open>util.GetLuaFiles\<close>,
  \<^verbatim>\<open>os.Stat\<close> (its error and whether \<^verbatim>\<open>os.IsNotExist\<close> holds of it),
  \<^verbatim>\<open>filepath.Walk\<close> (the calls it makes to its callback, in order) and the query
  for the enabled extensions of a kind (the query error, or one scan result per row).
\<close>

record walkEntry =
  wPath :: string
  wName :: string
  wIsDir :: bool
  wErr :: "error option"

record extern =
  ToLower :: "string \<Rightarrow> string"
  DatabaseMetaTableName :: string
  DatabaseTransactionStatusFieldName :: string
  GetApplicationState :: "lstate \<Rightarrow> lstate"
  DoFile :: "string \<Rightarrow> lstate \<Rightarrow> error + lstate"
  CompileLua :: "string \<Rightarrow> error + nat"
  GetLuaFiles :: "string \<Rightarrow> error + string list"
  Stat :: "string \<Rightarrow> (error \<times> bool) option"
  Walk :: "string \<Rightarrow> walkEntry list"
  Queryx :: "string \<Rightarrow> error + (error + string) list"

subsection \<open>The pool of interpreter instances\<close>

record stateList =
  List :: "string \<rightharpoonup> nat list"
  Type :: string

text \<open>Reading a Go map of slices at a missing key gives the nil slice.\<close>

definition slot :: "(string \<rightharpoonup> nat list) \<Rightarrow> string \<Rightarrow> nat list" where
  "slot m k = (case m k of None \<Rightarrow> [] | Some xs \<Rightarrow> xs)"

text \<open>
  \<^verbatim>\<open>func (s *stateList) Get(path string) (*glua.LState, error)\<close>: the result, the
  pool and the heap after the call.
\<close>

definition stateList_Get ::
  "extern \<Rightarrow> stateList \<times> heap \<Rightarrow> string \<Rightarrow> (error + nat) \<times> stateList \<times> heap" where
  "stateList_Get E w path0 =
     (let s = fst w; h = snd w; path = ToLower E path0 in
      if length (slot (stateList.List s) path) = 0 then
        (let state = GetApplicationState E NewState in
         case DoFile E path state of
           Inl err \<Rightarrow> (Inl err, s, h)
         | Inr state' \<Rightarrow>
             (Inr (nextAddr h), s,
              h\<lparr>cells := (cells h)(nextAddr h \<mapsto> state'), nextAddr := Suc (nextAddr h)\<rparr>))
      else
        (let x = last (slot (stateList.List s) path) in
         (Inr x,
          s\<lparr>stateList.List := (stateList.List s)(path \<mapsto> butlast (slot (stateList.List s) path))\<rparr>,
          h)))"

text \<open>
  \<^verbatim>\<open>func (s *stateList) Put(state *glua.LState, path string)\<close>. \<^verbatim>\<open>SetField\<close>
  on the value of \<^verbatim>\<open>GetTypeMetatable\<close> raises when no such metatable is registered
  (the value is nil, not a table), and a nil \<^verbatim>\<open>state\<close> cannot be dereferenced: both
  are \<open>Inl\<close>, the panic that leaves \<^verbatim>\<open>Put\<close> before the append.
\<close>

definition stateList_Put ::
  "extern \<Rightarrow> stateList \<times> heap \<Rightarrow> nat \<Rightarrow> string \<Rightarrow> error + stateList \<times> heap" where
  "stateList_Put E w state path0 =
     (let s = fst w; h = snd w; path = ToLower E path0 in
      case cells h state of
        None \<Rightarrow> Inl ''invalid memory address or nil pointer dereference''
      | Some st \<Rightarrow>
          (case typeMetatable st (DatabaseMetaTableName E) of
             None \<Rightarrow> Inl ''attempt to index a non-table object(nil)''
           | Some mt \<Rightarrow>
               Inr (s\<lparr>stateList.List :=
                        (stateList.List s)(path \<mapsto> slot (stateList.List s) path @ [state])\<rparr>,
                    h\<lparr>cells := (cells h)(state \<mapsto>
                        st\<lparr>typeMetatable := (typeMetatable st)(DatabaseMetaTableName E \<mapsto>
                            mt(DatabaseTransactionStatusFieldName E \<mapsto> LBool False))\<rparr>)\<rparr>)))"

text \<open>The database metatable of an instance and its open-transaction marker.\<close>

definition databaseMetatable :: "extern \<Rightarrow> heap \<Rightarrow> nat \<Rightarrow> (string \<rightharpoonup> lvalue) option" where
  "databaseMetatable E h a =
     (case cells h a of None \<Rightarrow> None | Some st \<Rightarrow> typeMetatable st (DatabaseMetaTableName E))"

definition transactionStatus :: "extern \<Rightarrow> heap \<Rightarrow> nat \<Rightarrow> lvalue option" where
  "transactionStatus E h a =
     (case databaseMetatable E h a of
        None \<Rightarrow> None
      | Some mt \<Rightarrow> mt (DatabaseTransactionStatusFieldName E))"

subsection \<open>The registry of compiled units\<close>

record compiledStateList =
  List :: "string \<rightharpoonup> nat"
  Type :: string

text \<open>
  \<^verbatim>\<open>func (s *compiledStateList) Get(path string) (*glua.FunctionProto, error)\<close>.
  Go leaves the order of \<^verbatim>\<open>range\<close> over a map open: \<open>keys\<close> is the order in which
  this call visits the keys of \<^verbatim>\<open>s.List\<close>.
\<close>

fun rangeGet ::
  "extern \<Rightarrow> (string \<rightharpoonup> nat) \<Rightarrow> string list \<Rightarrow> string \<Rightarrow> error + nat" where
  "rangeGet E m [] path = Inl ''Compiled lua proto not found''"
| "rangeGet E m (p # ps) path =
     (case m p of
        None \<Rightarrow> rangeGet E m ps path
      | Some proto \<Rightarrow> if ToLower E p = path then Inr proto else rangeGet E m ps path)"

definition compiledStateList_Get ::
  "extern \<Rightarrow> compiledStateList \<Rightarrow> string list \<Rightarrow> string \<Rightarrow> error + nat" where
  "compiledStateList_Get E s keys path0 =
     rangeGet E (compiledStateList.List s) keys (ToLower E path0)"

subsection \<open>Path helpers of the Go library\<close>

text \<open>
  \<^verbatim>\<open>strings.Replace(s, old, new, -1)\<close>: every non-overlapping occurrence of
  \<open>old\<close>, from the left. \<open>replaceFrom k\<close> first skips the \<open>k\<close> bytes that remain of
  an occurrence already replaced. With an empty \<open>old\<close> the Go function puts \<open>new\<close> in
  front of every byte and at the end.
\<close>

fun replaceFrom :: "nat \<Rightarrow> string \<Rightarrow> string \<Rightarrow> string \<Rightarrow> string" where
  "replaceFrom k old new [] = []"
| "replaceFrom k old new (c # cs) =
     (if 0 < k then replaceFrom (k - 1) old new cs
      else if take (length old) (c # cs) = old then new @ replaceFrom (length old - 1) old new cs
      else c # replaceFrom 0 old new cs)"

definition Replace :: "string \<Rightarrow> string \<Rightarrow> string \<Rightarrow> string" where
  "Replace s old new =
     (if old = [] then new @ concat (map (\<lambda>c. c # new) s) else replaceFrom 0 old new s)"

definition HasSuffix :: "string \<Rightarrow> string \<Rightarrow> bool" where
  "HasSuffix s suffix =
     (length suffix \<le> length s \<and> drop (length s - length suffix) s = suffix)"

definition TrimSuffix :: "string \<Rightarrow> string \<Rightarrow> string" where
  "TrimSuffix s suffix = (if HasSuffix s suffix then take (length s - length suffix) s else s)"

text \<open>
  \<^verbatim>\<open>filepath.Clean\<close> with the separator \<open>/\<close>: the path is cut at the separators,
  empty elements and \<open>.\<close> are dropped, \<open>..\<close> removes the element before it (at the
  start it is dropped in a rooted path and kept otherwise), and the empty result is
  \<open>.\<close>. \<open>cleanStack\<close> holds the elements kept so far, the last one first.
\<close>

fun components :: "string \<Rightarrow> string \<Rightarrow> string list" where
  "components cur [] = [cur]"
| "components cur (c # cs) =
     (if c = CHR ''/'' then cur # components [] cs else components (cur @ [c]) cs)"

fun cleanStack :: "bool \<Rightarrow> string list \<Rightarrow> string list \<Rightarrow> string list" where
  "cleanStack rooted st [] = rev st"
| "cleanStack rooted st (c # cs) =
     (if c = [] \<or> c = ''.'' then cleanStack rooted st cs
      else if c = ''..'' then
        (case st of
           [] \<Rightarrow> if rooted then cleanStack rooted [] cs else cleanStack rooted [''..''] cs
         | t # ts \<Rightarrow>
             if t = ''..'' then cleanStack rooted (''..'' # st) cs else cleanStack rooted ts cs)
      else cleanStack rooted (c # st) cs)"

fun joinWith :: "string list \<Rightarrow> string" where
  "joinWith [] = []"
| "joinWith [x] = x"
| "joinWith (x # y # ys) = x @ ''/'' @ joinWith (y # ys)"

definition Clean :: "string \<Rightarrow> string" where
  "Clean p =
     (let rooted = (take 1 p = ''/'');
          out = (if rooted then ''/'' else []) @ joinWith (cleanStack rooted [] (components [] p))
      in if out = [] then ''.'' else out)"

text \<open>
  \<^verbatim>\<open>filepath.Join\<close>: the elements from the first non-empty one on, joined by the
  separator and cleaned; the empty string when every element is empty. \<open>splitFile\<close> is
  the second result of \<^verbatim>\<open>filepath.Split\<close>: what follows the last separator.
\<close>

definition Join :: "string list \<Rightarrow> string" where
  "Join elems =
     (case dropWhile (\<lambda>e. e = []) elems of
        [] \<Rightarrow> []
      | x # xs \<Rightarrow> Clean (joinWith (x # xs)))"

definition splitFile :: "string \<Rightarrow> string" where
  "splitFile p = rev (takeWhile (\<lambda>c. c \<noteq> CHR ''/'') (rev p))"

definition extensionQuery :: "string \<Rightarrow> string" where
  "extensionQuery extType =
     Replace ''SELECT extension_id FROM castro_extension_? WHERE enabled = 1'' ''?'' extType"

definition extensionDir :: "string \<Rightarrow> string \<Rightarrow> string" where
  "extensionDir extensionID extType = Join [''extensions'', extensionID, extType]"

text \<open>The virtual path: the directory prefix replaced by the kind, in lower case.\<close>

definition virtualPath :: "extern \<Rightarrow> string \<Rightarrow> string \<Rightarrow> string \<Rightarrow> string" where
  "virtualPath E p dir extType = ToLower E (Replace p dir extType)"

subsection \<open>Compiling the primary tree and the extension trees\<close>

text \<open>
  \<^verbatim>\<open>filepath.Walk\<close> calls its callback on each entry until the callback returns an
  error, which \<^verbatim>\<open>Walk\<close> then returns (neither callback returns \<^verbatim>\<open>SkipDir\<close>).
  The callback gets the state it mutates and returns it with its error.
\<close>

fun walkLoop ::
  "(walkEntry \<Rightarrow> 'a \<Rightarrow> error option \<times> 'a) \<Rightarrow> walkEntry list \<Rightarrow> 'a \<Rightarrow> error option \<times> 'a" where
  "walkLoop fn [] a = (None, a)"
| "walkLoop fn (e # es) a =
     (case fn e a of
        (Some err, a') \<Rightarrow> (Some err, a')
      | (None, a') \<Rightarrow> walkLoop fn es a')"

text \<open>The callback of \<^verbatim>\<open>CompileFiles\<close>; \<open>files\<close> is the local map it fills.\<close>

definition compileFilesFn ::
  "extern \<Rightarrow> walkEntry \<Rightarrow> (string \<rightharpoonup> nat) \<Rightarrow> error option \<times> (string \<rightharpoonup> nat)" where
  "compileFilesFn E e files =
     (case wErr e of
        Some err \<Rightarrow> (Some err, files)
      | None \<Rightarrow>
          if wIsDir e then (None, files)
          else if HasSuffix (wName e) ''.lua'' then
            (case CompileLua E (wPath e) of
               Inl err \<Rightarrow> (Some err, files)
             | Inr proto \<Rightarrow> (None, files(wPath e \<mapsto> proto)))
          else (None, files))"

text \<open>\<^verbatim>\<open>func (s *compiledStateList) CompileFiles(dir string) error\<close>\<close>

definition CompileFiles ::
  "extern \<Rightarrow> compiledStateList \<Rightarrow> string \<Rightarrow> error option \<times> compiledStateList" where
  "CompileFiles E s dir =
     (case walkLoop (compileFilesFn E) (Walk E dir) Map.empty of
        (Some err, files) \<Rightarrow> (Some err, s)
      | (None, files) \<Rightarrow> (None, s\<lparr>compiledStateList.List := files\<rparr>))"

text \<open>
  The callback of \<^verbatim>\<open>CompileExtensions\<close>: it writes into \<^verbatim>\<open>s.List\<close> itself,
  under the virtual path.
\<close>

definition compileExtensionFn ::
  "extern \<Rightarrow> string \<Rightarrow> string \<Rightarrow> walkEntry \<Rightarrow> (string \<rightharpoonup> nat)
     \<Rightarrow> error option \<times> (string \<rightharpoonup> nat)" where
  "compileExtensionFn E dir extType e list =
     (case wErr e of
        Some err \<Rightarrow> (Some err, list)
      | None \<Rightarrow>
          if wIsDir e then (None, list)
          else if HasSuffix (wName e) ''.lua'' then
            (case CompileLua E (wPath e) of
               Inl err \<Rightarrow> (Some err, list)
             | Inr proto \<Rightarrow> (None, list(virtualPath E (wPath e) dir extType \<mapsto> proto)))
          else (None, list))"

text \<open>The loop over the rows of the query: a row is the result of its \<^verbatim>\<open>Scan\<close>.\<close>

fun compileRows ::
  "extern \<Rightarrow> string \<Rightarrow> (error + string) list \<Rightarrow> compiledStateList
     \<Rightarrow> error option \<times> compiledStateList" where
  "compileRows E extType [] s = (None, s)"
| "compileRows E extType (Inl err # rows) s = (Some err, s)"
| "compileRows E extType (Inr extensionID # rows) s =
     (let dir = extensionDir extensionID extType in
      case walkLoop (compileExtensionFn E dir extType) (Walk E dir) (compiledStateList.List s) of
        (Some err, list) \<Rightarrow> (Some err, s\<lparr>compiledStateList.List := list\<rparr>)
      | (None, list) \<Rightarrow> compileRows E extType rows (s\<lparr>compiledStateList.List := list\<rparr>))"

text \<open>\<^verbatim>\<open>func (s *compiledStateList) CompileExtensions(extType string) error\<close>\<close>

definition CompileExtensions ::
  "extern \<Rightarrow> compiledStateList \<Rightarrow> string \<Rightarrow> error option \<times> compiledStateList" where
  "CompileExtensions E s extType =
     (case Queryx E (extensionQuery extType) of
        Inl err \<Rightarrow> (Some err, s)
      | Inr rows \<Rightarrow> compileRows E extType rows s)"

subsection \<open>Loading the extension instances into the pool\<close>

text \<open>
  What \<^verbatim>\<open>LoadExtensions\<close> changes: the pool map, the heap of instances, the active
  widget list \<^verbatim>\<open>util.Widgets.List\<close> (the widget identifiers) and the lines written
  to the logger.
\<close>

record loadState =
  lsList :: "string \<rightharpoonup> nat list"
  lsHeap :: heap
  lsWidgets :: "string list"
  lsLog :: "string list"

text \<open>
  Modelled from the spec: \<^verbatim>\<open>util.Widgets.UnloadExtensionWidget\<close> is not in the
  sources; "the offending widget is removed from the externally-visible active widget
  list".
\<close>

definition UnloadExtensionWidget :: "string \<Rightarrow> string list \<Rightarrow> string list" where
  "UnloadExtensionWidget name ws = filter (\<lambda>w. w \<noteq> name) ws"

definition widgetName :: "string \<Rightarrow> string" where
  "widgetName subtopic = TrimSuffix (splitFile subtopic) ''.lua''"

text \<open>The inner loop of \<^verbatim>\<open>LoadExtensions\<close>, over the files of one extension.\<close>

fun loadSubtopics ::
  "extern \<Rightarrow> string \<Rightarrow> string \<Rightarrow> string \<Rightarrow> string list \<Rightarrow> loadState
     \<Rightarrow> error option \<times> loadState" where
  "loadSubtopics E extType extensionID dir [] st = (None, st)"
| "loadSubtopics E extType extensionID dir (subtopic # rest) st =
     (case DoFile E subtopic (GetApplicationState E NewState) of
        Inl err \<Rightarrow>
          if extType = ''widgets'' then
            loadSubtopics E extType extensionID dir rest
              (st\<lparr>lsLog := lsLog st @
                     [''Cannot load widgets in extension: '' @ extensionID @ '' '' @ err],
                  lsWidgets := UnloadExtensionWidget (widgetName subtopic) (lsWidgets st)\<rparr>)
          else (Some (''extension: '' @ extensionID @ '' '' @ err), st)
      | Inr state \<Rightarrow>
          (let path = virtualPath E subtopic dir extType; h = lsHeap st in
           loadSubtopics E extType extensionID dir rest
             (st\<lparr>lsList := (lsList st)(path \<mapsto> slot (lsList st) path @ [nextAddr h]),
                 lsHeap := h\<lparr>cells := (cells h)(nextAddr h \<mapsto> state),
                             nextAddr := Suc (nextAddr h)\<rparr>\<rparr>)))"

text \<open>The outer loop, over the rows of the query.\<close>

fun loadRows ::
  "extern \<Rightarrow> string \<Rightarrow> (error + string) list \<Rightarrow> loadState \<Rightarrow> error option \<times> loadState" where
  "loadRows E extType [] st = (None, st)"
| "loadRows E extType (Inl err # rows) st = (Some err, st)"
| "loadRows E extType (Inr extensionID # rows) st =
     (let dir = extensionDir extensionID extType in
      case Stat E dir of
        Some (err, notExist) \<Rightarrow>
          loadRows E extType rows
            (if notExist
             then st\<lparr>lsLog := lsLog st @
                    [''Missing '' @ extType @ '' directory in extension '' @ extensionID]\<rparr>
             else st)
      | None \<Rightarrow>
          (case GetLuaFiles E dir of
             Inl err \<Rightarrow> (Some err, st)
           | Inr subtopicList \<Rightarrow>
               (case loadSubtopics E extType extensionID dir subtopicList st of
                  (Some err, st') \<Rightarrow> (Some err, st')
                | (None, st') \<Rightarrow> loadRows E extType rows st')))"

text \<open>
  \<^verbatim>\<open>func (s *stateList) LoadExtensions() error\<close>; the pool map of \<open>st\<close> is
  \<^verbatim>\<open>s.List\<close>, \<open>stype\<close> is \<^verbatim>\<open>s.Type\<close>.
\<close>

definition LoadExtensions :: "extern \<Rightarrow> string \<Rightarrow> loadState \<Rightarrow> error option \<times> loadState" where
  "LoadExtensions E stype st =
     (let st1 = st\<lparr>lsList := Map.empty\<rparr>; extType = stype @ ''s'' in
      case Queryx E (extensionQuery extType) of
        Inl err \<Rightarrow> (Some err, st1)
      | Inr rows \<Rightarrow> loadRows E extType rows st1)"

subsection \<open>The player bridge\<close>

datatype ltype = LTNil | LTBool | LTNumber | LTString | LTFunction | LTUserData | LTTable

fun typeOf :: "lvalue \<Rightarrow> ltype" where
  "typeOf LNil = LTNil"
| "typeOf (LBool b) = LTBool"
| "typeOf (LNumber n) = LTNumber"
| "typeOf (LString s) = LTString"
| "typeOf (LUserData u) = LTUserData"
| "typeOf (LFunction f) = LTFunction"
| "typeOf (LTable t) = LTTable"

text \<open>
  The arguments handed to the database: a Go string, a Go integer, or the
  \<^verbatim>\<open>String()\<close> of a Lua value. Every call that leaves the bridge is recorded, in
  order, so that what a method did to the data is part of its result.
\<close>

datatype sqlArg = StrArg string | IntArg int | StringOf lvalue

datatype call =
    DBSelect string "sqlArg list"
  | DBExec string "sqlArg list"
  | DBGet string "sqlArg list"
  | CallGetPlayerByID int
  | CallSetBalance player int
  | CallGetStorageValue player int
  | CallSetStorageValue player int int

text \<open>
  How a bound method ends otherwise than by returning: \<^verbatim>\<open>L.RaiseError\<close>,
  \<^verbatim>\<open>L.ArgError\<close> (argument number and message), or a Go panic.
\<close>

datatype failure = LuaError string | ArgError nat string | GoPanic string

text \<open>
  What the bridge calls outside itself. The functions of package \<^verbatim>\<open>models\<close> and
  of \<^verbatim>\<open>database.DB\<close> answer with an error or a value; a successful lookup yields a
  player, never a nil pointer with a nil error. \<open>parseNumber\<close> and \<open>formatNumber\<close>
  are the Lua library's conversions between strings and numbers, \<open>StructToTable\<close> the
  reflective projection of a player (given the pointer, possibly nil), \<open>playerMethods\<close>
  the names in the method table.
\<close>

record dataLayer =
  GetPlayerByID :: "int \<Rightarrow> error + player"
  GetPlayerByName :: "string \<Rightarrow> error + player"
  mysqlDatabase :: string
  Select :: "string \<Rightarrow> sqlArg list \<Rightarrow> error + string list"
  Exec :: "string \<Rightarrow> sqlArg list \<Rightarrow> error option"
  GetValue :: "string \<Rightarrow> sqlArg list \<Rightarrow> error + string"
  SetBalance :: "player \<Rightarrow> int \<Rightarrow> error option"
  GetStorageValue :: "player \<Rightarrow> int \<Rightarrow> error + (string \<times> lvalue) list"
  SetStorageValue :: "player \<Rightarrow> int \<Rightarrow> int \<Rightarrow> error option"
  StructToTable :: "player option \<Rightarrow> (string \<times> lvalue) list"
  playerMethods :: "string list"
  parseNumber :: "string \<Rightarrow> int option"
  formatNumber :: "int \<Rightarrow> string"

text \<open>The Lua stack of a call is the list of its arguments; position 1 is the first.\<close>

definition Get :: "lvalue list \<Rightarrow> nat \<Rightarrow> lvalue" where
  "Get L n = (if 0 < n \<and> n \<le> length L then L ! (n - 1) else LNil)"

definition ToInt :: "dataLayer \<Rightarrow> lvalue list \<Rightarrow> nat \<Rightarrow> int" where
  "ToInt D L n =
     (case Get L n of
        LNumber v \<Rightarrow> v
      | LString str \<Rightarrow> (case parseNumber D str of Some v \<Rightarrow> v | None \<Rightarrow> 0)
      | _ \<Rightarrow> 0)"

definition ToInt64 :: "dataLayer \<Rightarrow> lvalue list \<Rightarrow> nat \<Rightarrow> int" where
  "ToInt64 D L n = ToInt D L n"

definition ToString :: "dataLayer \<Rightarrow> lvalue list \<Rightarrow> nat \<Rightarrow> string" where
  "ToString D L n =
     (case Get L n of
        LString str \<Rightarrow> str
      | LNumber v \<Rightarrow> formatNumber D v
      | _ \<Rightarrow> [])"

definition ToTable :: "lvalue list \<Rightarrow> nat \<Rightarrow> (string \<times> lvalue) list option" where
  "ToTable L n = (case Get L n of LTable t \<Rightarrow> Some t | _ \<Rightarrow> None)"

definition GetField :: "(string \<times> lvalue) list \<Rightarrow> string \<Rightarrow> lvalue" where
  "GetField t k = (case map_of t k of None \<Rightarrow> LNil | Some v \<Rightarrow> v)"

definition SetField :: "(string \<times> lvalue) list \<Rightarrow> string \<Rightarrow> lvalue \<Rightarrow> (string \<times> lvalue) list" where
  "SetField t k v = (k, v) # filter (\<lambda>kv. fst kv \<noteq> k) t"

definition SetFuncs :: "(string \<times> lvalue) list \<Rightarrow> string list \<Rightarrow> (string \<times> lvalue) list" where
  "SetFuncs t names = fold (\<lambda>name t'. SetField t' name (LFunction name)) names t"

text \<open>
  Modelled from the spec: \<^verbatim>\<open>MergeTableFields\<close> is not in the sources; the handle
  carries "a reflective field-to-table projection exposing all public attributes by
  name", so every field of the projection is set on the destination table.
\<close>

definition MergeTableFields ::
  "(string \<times> lvalue) list \<Rightarrow> (string \<times> lvalue) list \<Rightarrow> (string \<times> lvalue) list" where
  "MergeTableFields src dest = fold (\<lambda>kv t. SetField t (fst kv) (snd kv)) src dest"

text \<open>The dynamic type of the \<^verbatim>\<open>interface{}\<close> given to \<^verbatim>\<open>playerTableConstructor\<close>.\<close>

datatype iface = IInt64 int | IString string | IOther

definition playerTableConstructor :: "dataLayer \<Rightarrow> iface \<Rightarrow> player option \<times> error option" where
  "playerTableConstructor D i =
     (case i of
        IInt64 n \<Rightarrow> (case GetPlayerByID D n of Inl err \<Rightarrow> (None, Some err) | Inr p \<Rightarrow> (Some p, None))
      | IOther \<Rightarrow> (None, Some ''Invalid player name or id'')
      | IString name \<Rightarrow>
          (case GetPlayerByName D name of Inl err \<Rightarrow> (None, Some err) | Inr p \<Rightarrow> (Some p, None)))"

definition createPlayerMetaTable :: "dataLayer \<Rightarrow> player option \<Rightarrow> (string \<times> lvalue) list" where
  "createPlayerMetaTable D player =
     MergeTableFields (StructToTable D player)
       (SetFuncs (SetField [] ''__player'' (LUserData player)) (playerMethods D))"

definition updatePlayerMetaTable ::
  "dataLayer \<Rightarrow> player option \<Rightarrow> (string \<times> lvalue) list \<Rightarrow> (string \<times> lvalue) list" where
  "updatePlayerMetaTable D player t =
     MergeTableFields (StructToTable D player) (SetField t ''__player'' (LUserData player))"

text \<open>\<^verbatim>\<open>func PlayerConstructor(L *lua.LState) int\<close>: the values it pushes.\<close>

definition PlayerConstructor :: "dataLayer \<Rightarrow> lvalue list \<Rightarrow> lvalue list" where
  "PlayerConstructor D L =
     (let v = Get L 1;
          r1 = (if typeOf v = LTNumber then playerTableConstructor D (IInt64 (ToInt64 D L 1))
                else (None, None));
          r2 = (if typeOf v = LTString then playerTableConstructor D (IString (ToString D L 1))
                else r1)
      in if snd r2 \<noteq> None then [LNil]
         else [LTable (createPlayerMetaTable D (fst r2))])"

text \<open>
  \<^verbatim>\<open>getPlayerObject\<close>: the pointer in the \<^verbatim>\<open>__player\<close> field of the first
  argument. Indexing what is not a table and asserting the user datum on another value are
  Go panics.
\<close>

definition getPlayerObject :: "lvalue list \<Rightarrow> error + player option" where
  "getPlayerObject L =
     (case ToTable L 1 of
        None \<Rightarrow> Inl ''invalid memory address or nil pointer dereference''
      | Some tbl \<Rightarrow>
          (case GetField tbl ''__player'' of
             LUserData p \<Rightarrow> Inr p
           | _ \<Rightarrow> Inl ''interface conversion: lua.LValue is not *lua.LUserData''))"

definition nilPlayer :: failure where
  "nilPlayer = GoPanic ''invalid memory address or nil pointer dereference''"

text \<open>\<^verbatim>\<open>func SetPlayerBankBalance(L *lua.LState) int\<close>\<close>

definition SetPlayerBankBalance ::
  "dataLayer \<Rightarrow> lvalue list \<Rightarrow> (failure + lvalue list) \<times> call list" where
  "SetPlayerBankBalance D L =
     (case getPlayerObject L of
        Inl e \<Rightarrow> (Inl (GoPanic e), [])
      | Inr None \<Rightarrow> (Inl nilPlayer, [])
      | Inr (Some player) \<Rightarrow>
          (let newBalance = ToInt D L 2 in
           case SetBalance D player newBalance of
             Some err \<Rightarrow>
               (Inl (LuaError ''Cannot update player balance: %!v(MISSING)''),
                [CallSetBalance player newBalance])
           | None \<Rightarrow> (Inr [], [CallSetBalance player newBalance])))"

text \<open>\<^verbatim>\<open>func GetPlayerStorageValue(L *lua.LState) int\<close>\<close>

definition GetPlayerStorageValue ::
  "dataLayer \<Rightarrow> lvalue list \<Rightarrow> (failure + lvalue list) \<times> call list" where
  "GetPlayerStorageValue D L =
     (case getPlayerObject L of
        Inl e \<Rightarrow> (Inl (GoPanic e), [])
      | Inr player \<Rightarrow>
          (let key = Get L 2 in
           if typeOf key \<noteq> LTNumber then
             (Inl (ArgError 1 ''Invalid key type. Expected number''), [])
           else
             (case player of
                None \<Rightarrow> (Inl nilPlayer, [])
              | Some p \<Rightarrow>
                  (case GetStorageValue D p (ToInt D L 2) of
                     Inl err \<Rightarrow>
                       (Inl (LuaError (''Unable to get player storage value ('' @
                          formatNumber D (ToInt D L 2) @ '') '' @ err)),
                        [CallGetStorageValue p (ToInt D L 2)])
                   | Inr storage \<Rightarrow>
                       (Inr [LTable storage], [CallGetStorageValue p (ToInt D L 2)])))))"

text \<open>\<^verbatim>\<open>func SetPlayerStorageValue(L *lua.LState) int\<close>\<close>

definition SetPlayerStorageValue ::
  "dataLayer \<Rightarrow> lvalue list \<Rightarrow> (failure + lvalue list) \<times> call list" where
  "SetPlayerStorageValue D L =
     (case getPlayerObject L of
        Inl e \<Rightarrow> (Inl (GoPanic e), [])
      | Inr player \<Rightarrow>
          (let key = Get L 2 in
           if typeOf key \<noteq> LTNumber then
             (Inl (ArgError 1 ''Invalid key type. Expected number''), [])
           else
             (let val = Get L 3 in
              if typeOf val \<noteq> LTNumber then
                (Inl (ArgError 1 ''Invalid value type. Expected number''), [])
              else
                (case player of
                   None \<Rightarrow> (Inl nilPlayer, [])
                 | Some p \<Rightarrow>
                     (case SetStorageValue D p (ToInt D L 2) (ToInt D L 3) of
                        Some err \<Rightarrow>
                          (Inl (LuaError (''Unable to set player storage value: '' @ err)),
                           [CallSetStorageValue p (ToInt D L 2) (ToInt D L 3)])
                      | None \<Rightarrow>
                          (Inr [], [CallSetStorageValue p (ToInt D L 2) (ToInt D L 3)]))))))"

subsection \<open>Custom fields\<close>

text \<open>\<^verbatim>\<open>html.EscapeString\<close>: the five characters it escapes.\<close>

definition escapeByte :: "char \<Rightarrow> string" where
  "escapeByte c =
     (if c = CHR ''&'' then ''&amp;''
      else if c = CHR 0x27 then ''&#39;''
      else if c = CHR ''<'' then ''&lt;''
      else if c = CHR ''>'' then ''&gt;''
      else if c = CHR 0x22 then ''&#34;''
      else [c])"

definition EscapeString :: "string \<Rightarrow> string" where
  "EscapeString s = concat (map escapeByte s)"

definition catalogQuery :: string where
  "catalogQuery =
     ''SELECT COLUMN_NAME AS name FROM INFORMATION_SCHEMA.COLUMNS WHERE TABLE_NAME = ? AND TABLE_SCHEMA = ?''"

definition updateQuery :: "string \<Rightarrow> string" where
  "updateQuery fieldName = ''UPDATE players SET '' @ EscapeString fieldName @ '' = ? WHERE id = ?''"

definition selectQuery :: "string \<Rightarrow> string" where
  "selectQuery fieldName = ''SELECT '' @ EscapeString fieldName @ '' FROM players WHERE id = ?''"

text \<open>
  The loop of \<^verbatim>\<open>SetPlayerCustomField\<close> over the column list; \<open>tr\<close> holds the calls
  made so far. The third result is the table at argument 1 when the method leaves it
  refreshed.
\<close>

fun setCustomFieldLoop ::
  "dataLayer \<Rightarrow> lvalue list \<Rightarrow> player option \<Rightarrow> string \<Rightarrow> lvalue \<Rightarrow> string list \<Rightarrow> call list
     \<Rightarrow> (failure + lvalue list) \<times> call list \<times> (string \<times> lvalue) list option" where
  "setCustomFieldLoop D L player fieldName fieldValue [] tr = (Inr [], tr, None)"
| "setCustomFieldLoop D L player fieldName fieldValue (column # rest) tr =
     (if column = fieldName then
        (case player of
           None \<Rightarrow> (Inl nilPlayer, tr, None)
         | Some p \<Rightarrow>
             (let c1 = DBExec (updateQuery fieldName) [StringOf fieldValue, IntArg (ID p)] in
              case Exec D (updateQuery fieldName) [StringOf fieldValue, IntArg (ID p)] of
                Some err \<Rightarrow>
                  (Inl (LuaError (''Cannot set custom field '' @ fieldName @ '': '' @ err)),
                   tr @ [c1], None)
              | None \<Rightarrow>
                  (case GetPlayerByID D (ID p) of
                     Inl err \<Rightarrow>
                       (Inl (LuaError (''Cannot update player metatable: '' @ err)),
                        tr @ [c1, CallGetPlayerByID (ID p)], None)
                   | Inr p' \<Rightarrow>
                       (case ToTable L 1 of
                          None \<Rightarrow> (Inl nilPlayer, tr @ [c1, CallGetPlayerByID (ID p)], None)
                        | Some t \<Rightarrow>
                            (Inr [], tr @ [c1, CallGetPlayerByID (ID p)],
                             Some (updatePlayerMetaTable D (Some p') t))))))
      else setCustomFieldLoop D L player fieldName fieldValue rest tr)"

text \<open>\<^verbatim>\<open>func SetPlayerCustomField(L *lua.LState) int\<close>\<close>

definition SetPlayerCustomField ::
  "dataLayer \<Rightarrow> lvalue list
     \<Rightarrow> (failure + lvalue list) \<times> call list \<times> (string \<times> lvalue) list option" where
  "SetPlayerCustomField D L =
     (case getPlayerObject L of
        Inl e \<Rightarrow> (Inl (GoPanic e), [], None)
      | Inr player \<Rightarrow>
          (let fieldName = ToString D L 2;
               fieldValue = Get L 3;
               schema = mysqlDatabase D;
               args = [StrArg ''players'', StrArg schema]
           in case Select D catalogQuery args of
                Inl err \<Rightarrow>
                  (Inl (LuaError
                     (''Cannot get list of column names from information_schema: '' @ err)),
                   [DBSelect catalogQuery args], None)
              | Inr nameList \<Rightarrow>
                  setCustomFieldLoop D L player fieldName fieldValue nameList
                    [DBSelect catalogQuery args]))"

text \<open>The loop of \<^verbatim>\<open>GetPlayerCustomField\<close>.\<close>

fun getCustomFieldLoop ::
  "dataLayer \<Rightarrow> player option \<Rightarrow> string \<Rightarrow> string list \<Rightarrow> call list
     \<Rightarrow> (failure + lvalue list) \<times> call list" where
  "getCustomFieldLoop D player fieldName [] tr = (Inr [LNil], tr)"
| "getCustomFieldLoop D player fieldName (column # rest) tr =
     (if column = fieldName then
        (case player of
           None \<Rightarrow> (Inl nilPlayer, tr)
         | Some p \<Rightarrow>
             (case GetValue D (selectQuery fieldName) [IntArg (ID p)] of
                Inl err \<Rightarrow>
                  (Inl (LuaError (''Cannot get custom field '' @ fieldName @ '': '' @ err)),
                   tr @ [DBGet (selectQuery fieldName) [IntArg (ID p)]])
              | Inr fieldValue \<Rightarrow>
                  (Inr [LString fieldValue],
                   tr @ [DBGet (selectQuery fieldName) [IntArg (ID p)]])))
      else getCustomFieldLoop D player fieldName rest tr)"

text \<open>\<^verbatim>\<open>func GetPlayerCustomField(L *lua.LState) int\<close>\<close>

definition GetPlayerCustomField ::
  "dataLayer \<Rightarrow> lvalue list \<Rightarrow> (failure + lvalue list) \<times> call list" where
  "GetPlayerCustomField D L =
     (case getPlayerObject L of
        Inl e \<Rightarrow> (Inl (GoPanic e), [])
      | Inr player \<Rightarrow>
          (let fieldName = ToString D L 2;
               schema = mysqlDatabase D;
               args = [StrArg ''players'', StrArg schema]
           in case Select D catalogQuery args of
                Inl err \<Rightarrow>
                  (Inl (LuaError
                     (''Cannot get list of column names from information_schema: '' @ err)),
                   [DBSelect catalogQuery args])
              | Inr nameList \<Rightarrow>
                  getCustomFieldLoop D player fieldName nameList [DBSelect catalogQuery args]))"

subsection \<open>A small installation\<close>

text \<open>
  One installation to run the operations on: a primary tree \<^verbatim>\<open>pages\<close>, the page
  extensions \<^verbatim>\<open>42\<close> (two scripts) and \<^verbatim>\<open>gone\<close> (enabled, its directory
  missing), the widget extensions \<^verbatim>\<open>shop\<close> (one script loads, one does not) and
  \<^verbatim>\<open>news\<close>.
\<close>

definition fileEntry :: "string \<Rightarrow> string \<Rightarrow> walkEntry" where
  "fileEntry p n = \<lparr>wPath = p, wName = n, wIsDir = False, wErr = None\<rparr>"

definition dirEntry :: "string \<Rightarrow> string \<Rightarrow> walkEntry" where
  "dirEntry p n = \<lparr>wPath = p, wName = n, wIsDir = True, wErr = None\<rparr>"

definition failedEntry :: "string \<Rightarrow> error \<Rightarrow> walkEntry" where
  "failedEntry p err = \<lparr>wPath = p, wName = [], wIsDir = False, wErr = Some err\<rparr>"

definition demoExtern :: extern where
  "demoExtern =
     \<lparr>ToLower = toLowerASCII,
      DatabaseMetaTableName = ''database'',
      DatabaseTransactionStatusFieldName = ''transaction'',
      GetApplicationState =
        (\<lambda>st. st\<lparr>typeMetatable := (typeMetatable st)(''database'' \<mapsto> Map.empty)\<rparr>),
      DoFile =
        (\<lambda>p st. if p = ''extensions/shop/widgets/broken/broken.lua''
                   \<or> p = ''pages/missing.lua''
                 then Inl ''cannot open'' else Inr st),
      CompileLua =
        (\<lambda>p. if p = ''pages/index.lua'' then Inr 1
              else if p = ''extensions/42/pages/Index.lua'' then Inr 2
              else if p = ''extensions/42/pages/shop.lua'' then Inr 3
              else Inl ''syntax error''),
      GetLuaFiles =
        (\<lambda>d. if d = ''extensions/shop/widgets''
              then Inr [''extensions/shop/widgets/shop/shop.lua'',
                        ''extensions/shop/widgets/broken/broken.lua'']
              else if d = ''extensions/news/widgets''
              then Inr [''extensions/news/widgets/news/news.lua'']
              else if d = ''extensions/42/pages''
              then Inr [''extensions/42/pages/Index.lua'', ''extensions/42/pages/shop.lua'']
              else Inl ''cannot read directory''),
      Stat =
        (\<lambda>d. if d = ''extensions/gone/pages'' \<or> d = ''extensions/gone/widgets''
              then Some (''no such file or directory'', True) else None),
      Walk =
        (\<lambda>d. if d = ''pages''
              then [dirEntry ''pages'' ''pages'', fileEntry ''pages/index.lua'' ''index.lua'',
                    fileEntry ''pages/readme.txt'' ''readme.txt'']
              else if d = ''extensions/42/pages''
              then [dirEntry ''extensions/42/pages'' ''pages'',
                    fileEntry ''extensions/42/pages/Index.lua'' ''Index.lua'',
                    fileEntry ''extensions/42/pages/shop.lua'' ''shop.lua'']
              else [failedEntry d ''no such file or directory'']),
      Queryx =
        (\<lambda>q. if q = ''SELECT extension_id FROM castro_extension_pages WHERE enabled = 1''
              then Inr [Inr ''42'', Inr ''gone'']
              else if q = ''SELECT extension_id FROM castro_extension_widgets WHERE enabled = 1''
              then Inr [Inr ''shop'', Inr ''news'']
              else Inl ''no such table'')\<rparr>"

text \<open>The same installation with one script of extension 42, or of the primary tree, broken.\<close>

definition brokenExtern :: extern where
  "brokenExtern =
     demoExtern
       \<lparr>DoFile := (\<lambda>p st. if p = ''extensions/42/pages/shop.lua'' then Inl ''cannot open''
                           else Inr st),
        CompileLua := (\<lambda>p. if p = ''extensions/42/pages/Index.lua'' then Inr 2
                            else Inl ''syntax error''),
        Queryx := (\<lambda>q. Inr [Inr ''42''])\<rparr>"

definition emptyHeap :: heap where
  "emptyHeap = \<lparr>cells = Map.empty, nextAddr = 0\<rparr>"

definition emptyPool :: stateList where
  "emptyPool = \<lparr>stateList.List = Map.empty, stateList.Type = ''widget''\<rparr>"

definition demoRegistry :: compiledStateList where
  "demoRegistry =
     \<lparr>compiledStateList.List = [''pages/Index.lua'' \<mapsto> 7], compiledStateList.Type = ''page''\<rparr>"

definition demoLoadState :: loadState where
  "demoLoadState =
     \<lparr>lsList = Map.empty, lsHeap = emptyHeap, lsWidgets = [''shop'', ''broken'', ''news''],
      lsLog = []\<rparr>"

definition bob :: player where
  "bob = \<lparr>ID = 7, Account_id = 3, Name = ''bob'', Vocation = 1, Sex = 0, Town_id = 2, Level = 40\<rparr>"

definition demoData :: dataLayer where
  "demoData =
     \<lparr>GetPlayerByID = (\<lambda>n. if n = 7 then Inr bob else Inl ''sql: no rows in result set''),
      GetPlayerByName =
        (\<lambda>name. if name = ''bob'' then Inr bob else Inl ''sql: no rows in result set''),
      mysqlDatabase = ''castro'',
      Select = (\<lambda>q a. Inr [''id'', ''name'', ''level'']),
      Exec = (\<lambda>q a. None),
      GetValue = (\<lambda>q a. Inr ''40''),
      SetBalance = (\<lambda>p n. None),
      GetStorageValue = (\<lambda>p k. Inr [(''Key'', LNumber k), (''Value'', LNumber 0)]),
      SetStorageValue = (\<lambda>p k v. None),
      StructToTable =
        (\<lambda>p. case p of None \<Rightarrow> [] | Some q \<Rightarrow> [(''ID'', LNumber (ID q)), (''Name'', LString (Name q))]),
      playerMethods = [''getBankBalance'', ''setBankBalance''],
      parseNumber = (\<lambda>str. None),
      formatNumber = (\<lambda>n. ''0'')\<rparr>"

text \<open>The same data layer with the database unreachable.\<close>

definition downData :: dataLayer where
  "downData =
     demoData
       \<lparr>GetPlayerByID := (\<lambda>n. Inl ''dial tcp: connection refused''),
        GetPlayerByName := (\<lambda>name. Inl ''dial tcp: connection refused'')\<rparr>"

definition bobHandle :: lvalue where
  "bobHandle = LTable (createPlayerMetaTable demoData (Some bob))"

text \<open>An instance returned with its open-transaction marker still set.\<close>

definition openHeap :: heap where
  "openHeap = \<lparr>cells = [0 \<mapsto> \<lparr>typeMetatable = [''database'' \<mapsto> [''transaction'' \<mapsto> LBool True]]\<rparr>],
       nextAddr = Suc 0\<rparr>"

text \<open>
  The entries on which a walk callback compiles: no walk error, not a directory, a name
  ending in \<^verbatim>\<open>.lua\<close>.
\<close>

definition isScript :: "walkEntry \<Rightarrow> bool" where
  "isScript e = (wErr e = None \<and> \<not> wIsDir e \<and> HasSuffix (wName e) ''.lua'')"

text \<open>
  The registry as \<^verbatim>\<open>CompiledPageList\<close> starts, and an installation whose primary tree
  holds \<^verbatim>\<open>pages/Index.lua\<close> while the enabled extension 42 brings its own
  \<^verbatim>\<open>Index.lua\<close>; \<open>caseRegistry\<close> is the registry after the primary tree and then
  the extensions have been compiled.
\<close>

definition emptyRegistry :: compiledStateList where
  "emptyRegistry = \<lparr>compiledStateList.List = Map.empty, compiledStateList.Type = ''page''\<rparr>"

definition caseExtern :: extern where
  "caseExtern =
     demoExtern
       \<lparr>CompileLua := (\<lambda>p. if p = ''pages/Index.lua'' then Inr 5 else CompileLua demoExtern p),
        Walk := (\<lambda>d. if d = ''pages''
                      then [dirEntry ''pages'' ''pages'', fileEntry ''pages/Index.lua'' ''Index.lua'']
                      else Walk demoExtern d),
        Queryx := (\<lambda>q. Inr [Inr ''42''])\<rparr>"

definition caseRegistry :: compiledStateList where
  "caseRegistry =
     snd (CompileExtensions caseExtern (snd (CompileFiles caseExtern emptyRegistry ''pages''))
            ''pages'')"

text \<open>
  The installation with a second page extension, 77, enabled after 42: one of its scripts
  compiles, the next one does not.
\<close>

definition laterExtern :: extern where
  "laterExtern =
     demoExtern
       \<lparr>CompileLua := (\<lambda>p. if p = ''extensions/77/pages/news.lua'' then Inr 4
                            else CompileLua demoExtern p),
        Walk := (\<lambda>d. if d = ''extensions/77/pages''
                      then [dirEntry ''extensions/77/pages'' ''pages'',
                            fileEntry ''extensions/77/pages/news.lua'' ''news.lua'',
                            fileEntry ''extensions/77/pages/bad.lua'' ''bad.lua'']
                      else Walk demoExtern d),
        Queryx := (\<lambda>q. Inr [Inr ''42'', Inr ''77''])\<rparr>"

section \<open>Properties\<close>

subsection \<open>Case of paths\<close>

lemma demo_lower [simp]: "ToLower demoExtern = toLowerASCII"
  by (simp add: demoExtern_def)

lemma lower_demo: "toLowerASCII ''Pages/Index.lua'' = ''pages/index.lua''"
  by code_simp

lemma lower_plain: "toLowerASCII ''pages/index.lua'' = ''pages/index.lua''"
  by code_simp

subsection \<open>The pool\<close>






text \<open>
  C3. Whatever the open-transaction marker of an instance was, once \<^verbatim>\<open>Put\<close> has
  returned the marker on the database metatable of that instance is \<open>false\<close>; and
  \<^verbatim>\<open>Put\<close> does return for every instance on which the database metatable is
  registered.
\<close>

theorem checkin_clears_transaction:
  "(databaseMetatable E h a \<noteq> None \<longrightarrow> (\<exists>r. stateList_Put E (s, h) a path = Inr r))
   \<and> (\<forall>s' h'. stateList_Put E (s, h) a path = Inr (s', h')
         \<longrightarrow> transactionStatus E h' a = Some (LBool False))"
  by (auto simp: stateList_Put_def databaseMetatable_def transactionStatus_def Let_def
           split: option.splits)

lemma openHeap_marker: "transactionStatus demoExtern openHeap 0 = Some (LBool True)"
  by (simp add: transactionStatus_def databaseMetatable_def openHeap_def demoExtern_def)

lemma openHeap_Put:
  "stateList_Put demoExtern (emptyPool, openHeap) 0 ''pages/index.lua'' =
   Inr (\<lparr>stateList.List = [''pages/index.lua'' \<mapsto> [0]], stateList.Type = ''widget''\<rparr>,
      \<lparr>cells = [0 \<mapsto> \<lparr>typeMetatable = [''database'' \<mapsto> [''transaction'' \<mapsto> LBool False]]\<rparr>],
       nextAddr = Suc 0\<rparr>)"
  by (simp add: stateList_Put_def lower_plain slot_def emptyPool_def demoExtern_def
      openHeap_def)

theorem checkin_clears_transaction_witness:
  "transactionStatus demoExtern openHeap 0 = Some (LBool True)
   \<and> (\<exists>s' h'. stateList_Put demoExtern (emptyPool, openHeap) 0 ''pages/index.lua'' = Inr (s', h')
        \<and> transactionStatus demoExtern h' 0 = Some (LBool False))"
  using checkin_clears_transaction [of demoExtern openHeap 0 emptyPool "''pages/index.lua''"]
    openHeap_marker openHeap_Put by blast


subsection \<open>Compiling the primary tree\<close>

lemma walkLoop_append:
  "walkLoop fn (xs @ ys) a =
     (case walkLoop fn xs a of (Some err, a') \<Rightarrow> (Some err, a') | (None, a') \<Rightarrow> walkLoop fn ys a')"
  by (induction xs arbitrary: a) (auto split: prod.splits option.splits)

lemma compileFilesFn_cases:
  "compileFilesFn E e m = (None, m') \<Longrightarrow>
     (isScript e \<and> (\<exists>proto. CompileLua E (wPath e) = Inr proto \<and> m' = m(wPath e \<mapsto> proto)))
     \<or> (\<not> isScript e \<and> m' = m)"
  by (auto simp: compileFilesFn_def isScript_def split: option.splits if_splits sum.splits)

lemma compileFilesFn_fails:
  "isScript e \<Longrightarrow> CompileLua E (wPath e) = Inl err \<Longrightarrow> compileFilesFn E e m = (Some err, m)"
  by (simp add: compileFilesFn_def isScript_def)

lemma walkLoop_files:
  "walkLoop (compileFilesFn E) es m = (None, m') \<Longrightarrow>
     (\<forall>e \<in> set es. isScript e \<longrightarrow> (\<exists>proto. CompileLua E (wPath e) = Inr proto \<and> m' (wPath e) = Some proto))
     \<and> (\<forall>p. p \<notin> wPath ` {e \<in> set es. isScript e} \<longrightarrow> m' p = m p)"
proof (induction es arbitrary: m)
  case Nil
  then show ?case by simp
next
  case (Cons e es)
  from Cons.prems obtain m1 where s1: "compileFilesFn E e m = (None, m1)"
    and r: "walkLoop (compileFilesFn E) es m1 = (None, m')"
    by (auto split: prod.splits option.splits)
  note ih = Cons.IH [OF r]
  from compileFilesFn_cases [OF s1] show ?case
  proof
    assume a: "isScript e \<and> (\<exists>proto. CompileLua E (wPath e) = Inr proto \<and> m1 = m(wPath e \<mapsto> proto))"
    then obtain proto where c: "CompileLua E (wPath e) = Inr proto" and m1: "m1 = m(wPath e \<mapsto> proto)"
      by blast
    have here: "m' (wPath e) = Some proto"
    proof (cases "wPath e \<in> wPath ` {x \<in> set es. isScript x}")
      case True
      then obtain x where "x \<in> set es" "isScript x" "wPath x = wPath e" by auto
      with ih c show ?thesis by fastforce
    next
      case False
      with ih have "m' (wPath e) = m1 (wPath e)" by blast
      with m1 show ?thesis by simp
    qed
    have out: "m' p = m p" if "p \<notin> wPath ` {x \<in> set (e # es). isScript x}" for p
    proof -
      from that have "p \<noteq> wPath e" "p \<notin> wPath ` {x \<in> set es. isScript x}"
        using a by auto
      with ih m1 show ?thesis by simp
    qed
    from here c ih out show ?thesis by auto
  next
    assume a: "\<not> isScript e \<and> m1 = m"
    have out: "m' p = m p" if "p \<notin> wPath ` {x \<in> set (e # es). isScript x}" for p
    proof -
      from that a have "p \<notin> wPath ` {x \<in> set es. isScript x}" by auto
      with ih a show ?thesis by simp
    qed
    from a ih out show ?thesis by auto
  qed
qed

lemma CompileFiles_failure_keeps:
  "fst (CompileFiles E s dir) \<noteq> None \<Longrightarrow> snd (CompileFiles E s dir) = s"
  by (auto simp: CompileFiles_def split: prod.splits option.splits)

lemma CompileFiles_first_failure:
  assumes "Walk E dir = pre @ e # post"
      and "fst (walkLoop (compileFilesFn E) pre Map.empty) = None"
      and "isScript e" "CompileLua E (wPath e) = Inl err"
  shows "CompileFiles E s dir = (Some err, s)"
proof -
  from assms(2) obtain m where "walkLoop (compileFilesFn E) pre Map.empty = (None, m)"
    by (cases "walkLoop (compileFilesFn E) pre Map.empty") auto
  then have "walkLoop (compileFilesFn E) (pre @ e # post) Map.empty = (Some err, m)"
    using compileFilesFn_fails [OF assms(3,4)] by (simp add: walkLoop_append)
  then show ?thesis by (simp add: CompileFiles_def assms(1))
qed

lemma CompileFiles_success:
  assumes "fst (CompileFiles E s dir) = None"
  shows "(\<forall>e \<in> set (Walk E dir). isScript e \<longrightarrow>
            (\<exists>proto. CompileLua E (wPath e) = Inr proto
               \<and> compiledStateList.List (snd (CompileFiles E s dir)) (wPath e) = Some proto))
         \<and> dom (compiledStateList.List (snd (CompileFiles E s dir)))
             = wPath ` {e \<in> set (Walk E dir). isScript e}"
proof -
  from assms obtain files where w: "walkLoop (compileFilesFn E) (Walk E dir) Map.empty = (None, files)"
    and r: "CompileFiles E s dir = (None, s\<lparr>compiledStateList.List := files\<rparr>)"
    by (auto simp: CompileFiles_def split: prod.splits option.splits)
  note f = walkLoop_files [OF w]
  have "dom files = wPath ` {e \<in> set (Walk E dir). isScript e}"
  proof (rule set_eqI)
    fix p
    show "p \<in> dom files \<longleftrightarrow> p \<in> wPath ` {e \<in> set (Walk E dir). isScript e}"
    proof (cases "p \<in> wPath ` {e \<in> set (Walk E dir). isScript e}")
      case True
      then obtain x where "x \<in> set (Walk E dir)" "isScript x" "wPath x = p" by auto
      with f have "files p \<noteq> None" by fastforce
      with True show ?thesis by auto
    next
      case False
      with f have "files p = None" by simp
      with False show ?thesis by auto
    qed
  qed
  with f r show ?thesis by simp
qed

text \<open>
  C4. \<^verbatim>\<open>CompileFiles\<close> is all or nothing. Whenever it returns an error the registry
  is exactly what it was; the script whose compilation fails, every entry walked before it
  having passed, makes the call return that script's error; and when the call returns no
  error the new registry holds the compiled unit of every script of the walk under its
  path, and nothing else.
\<close>

theorem CompileFiles_atomic:
  "(fst (CompileFiles E s dir) \<noteq> None \<longrightarrow> snd (CompileFiles E s dir) = s)
   \<and> (\<forall>pre e post err.
         Walk E dir = pre @ e # post
         \<and> fst (walkLoop (compileFilesFn E) pre Map.empty) = None
         \<and> isScript e \<and> CompileLua E (wPath e) = Inl err
       \<longrightarrow> CompileFiles E s dir = (Some err, s))
   \<and> (fst (CompileFiles E s dir) = None \<longrightarrow>
         (\<forall>e \<in> set (Walk E dir). isScript e \<longrightarrow>
            (\<exists>proto. CompileLua E (wPath e) = Inr proto
               \<and> compiledStateList.List (snd (CompileFiles E s dir)) (wPath e) = Some proto))
         \<and> dom (compiledStateList.List (snd (CompileFiles E s dir)))
             = wPath ` {e \<in> set (Walk E dir). isScript e})"
  using CompileFiles_failure_keeps [of E s dir] CompileFiles_first_failure [of E dir _ _ _ _ s]
    CompileFiles_success [of E s dir]
  by blast

lemma isScript_file: "isScript (fileEntry ''pages/index.lua'' ''index.lua'')"
  by (simp add: isScript_def fileEntry_def HasSuffix_def)

lemma broken_pages:
  "Walk brokenExtern ''pages'' =
     [dirEntry ''pages'' ''pages''] @ fileEntry ''pages/index.lua'' ''index.lua''
       # [fileEntry ''pages/readme.txt'' ''readme.txt'']"
  by (simp add: brokenExtern_def demoExtern_def)

lemma broken_pre:
  "fst (walkLoop (compileFilesFn brokenExtern) [dirEntry ''pages'' ''pages''] Map.empty) = None"
  by (simp add: compileFilesFn_def dirEntry_def)

lemma broken_compile:
  "CompileLua brokenExtern (wPath (fileEntry ''pages/index.lua'' ''index.lua'')) = Inl ''syntax error''"
  by (simp add: brokenExtern_def demoExtern_def fileEntry_def)

lemma demo_compile:
  "CompileLua demoExtern (wPath (fileEntry ''pages/index.lua'' ''index.lua'')) = Inr 1"
  by (simp add: demoExtern_def fileEntry_def)

lemma demo_pages_ok: "fst (CompileFiles demoExtern demoRegistry ''pages'') = None"
  by (simp add: CompileFiles_def demoExtern_def compileFilesFn_def dirEntry_def fileEntry_def
      HasSuffix_def)

lemma demo_pages_member:
  "fileEntry ''pages/index.lua'' ''index.lua'' \<in> set (Walk demoExtern ''pages'')"
  by (simp add: demoExtern_def)

theorem CompileFiles_atomic_witness:
  "CompileFiles brokenExtern demoRegistry ''pages'' = (Some ''syntax error'', demoRegistry)
   \<and> fst (CompileFiles demoExtern demoRegistry ''pages'') = None
   \<and> compiledStateList.List (snd (CompileFiles demoExtern demoRegistry ''pages''))
        ''pages/index.lua'' = Some 1"
proof -
  have "CompileFiles brokenExtern demoRegistry ''pages'' = (Some ''syntax error'', demoRegistry)"
    using CompileFiles_atomic [of brokenExtern demoRegistry "''pages''"]
      broken_pages broken_pre isScript_file broken_compile
    by blast
  moreover have "\<exists>proto. CompileLua demoExtern (wPath (fileEntry ''pages/index.lua'' ''index.lua'')) = Inr proto
        \<and> compiledStateList.List (snd (CompileFiles demoExtern demoRegistry ''pages''))
            (wPath (fileEntry ''pages/index.lua'' ''index.lua'')) = Some proto"
    using CompileFiles_atomic [of demoExtern demoRegistry "''pages''"]
      demo_pages_ok demo_pages_member isScript_file
    by blast
  then have "compiledStateList.List (snd (CompileFiles demoExtern demoRegistry ''pages''))
        ''pages/index.lua'' = Some 1"
    using demo_compile by (simp add: fileEntry_def)
  ultimately show ?thesis using demo_pages_ok by simp
qed

subsection \<open>Extensions are merged in place\<close>

lemma compileRows_append:
  "compileRows E t (xs @ ys) s =
     (case compileRows E t xs s of (Some err, s') \<Rightarrow> (Some err, s') | (None, s') \<Rightarrow> compileRows E t ys s')"
  by (induction E t xs s rule: compileRows.induct) (auto simp: Let_def split: prod.splits option.splits)

lemma compileExtensionFn_fails:
  "isScript e \<Longrightarrow> CompileLua E (wPath e) = Inl err \<Longrightarrow>
     compileExtensionFn E dir t e m = (Some err, m)"
  by (simp add: compileExtensionFn_def isScript_def)

lemma compileExtensionFn_dom:
  "compileExtensionFn E dir t e m = (r, m') \<Longrightarrow>
     dom m \<subseteq> dom m' \<and> (r = None \<and> isScript e \<longrightarrow> virtualPath E (wPath e) dir t \<in> dom m')"
  by (auto simp: compileExtensionFn_def isScript_def split: option.splits if_splits sum.splits)

lemma walkLoop_extension_dom:
  "walkLoop (compileExtensionFn E dir t) es m = (r, m') \<Longrightarrow> dom m \<subseteq> dom m'"
proof (induction es arbitrary: m)
  case Nil
  then show ?case by simp
next
  case (Cons e es)
  obtain r1 m1 where s1: "compileExtensionFn E dir t e m = (r1, m1)"
    by (cases "compileExtensionFn E dir t e m")
  from compileExtensionFn_dom [OF s1] have d: "dom m \<subseteq> dom m1" by simp
  show ?case
  proof (cases r1)
    case None
    with Cons.prems s1 have "walkLoop (compileExtensionFn E dir t) es m1 = (r, m')" by simp
    from Cons.IH [OF this] d show ?thesis by blast
  next
    case (Some err)
    with Cons.prems s1 have "m' = m1" by simp
    with d show ?thesis by simp
  qed
qed

lemma walkLoop_extension_merged:
  "walkLoop (compileExtensionFn E dir t) es m = (None, m') \<Longrightarrow>
     \<forall>x \<in> set es. isScript x \<longrightarrow> virtualPath E (wPath x) dir t \<in> dom m'"
proof (induction es arbitrary: m)
  case Nil
  then show ?case by simp
next
  case (Cons e es)
  from Cons.prems obtain m1 where s1: "compileExtensionFn E dir t e m = (None, m1)"
    and r: "walkLoop (compileExtensionFn E dir t) es m1 = (None, m')"
    by (auto split: prod.splits option.splits)
  from compileExtensionFn_dom [OF s1] have here: "isScript e \<longrightarrow> virtualPath E (wPath e) dir t \<in> dom m1"
    by simp
  from walkLoop_extension_dom [OF r] have "dom m1 \<subseteq> dom m'" .
  with here Cons.IH [OF r] show ?case by auto
qed

lemma compileRows_dom:
  "compileRows E t rows s = (r, s') \<Longrightarrow>
     dom (compiledStateList.List s) \<subseteq> dom (compiledStateList.List s')"
proof (induction E t rows s rule: compileRows.induct)
  case (1 E extType s)
  then show ?case by simp
next
  case (2 E extType err rows s)
  then show ?case by simp
next
  case (3 E extType extensionID rows s)
  let ?dir = "extensionDir extensionID extType"
  obtain r1 m1 where w: "walkLoop (compileExtensionFn E ?dir extType) (Walk E ?dir)
      (compiledStateList.List s) = (r1, m1)"
    by (cases "walkLoop (compileExtensionFn E ?dir extType) (Walk E ?dir) (compiledStateList.List s)")
  from walkLoop_extension_dom [OF w] have d: "dom (compiledStateList.List s) \<subseteq> dom m1" .
  show ?case
  proof (cases r1)
    case None
    with "3.prems" w have
      "compileRows E extType rows (s\<lparr>compiledStateList.List := m1\<rparr>) = (r, s')"
      by (simp add: Let_def)
    from "3.IH" [OF refl _ _ this] w None d show ?thesis by auto
  next
    case (Some err)
    with "3.prems" w have "s' = s\<lparr>compiledStateList.List := m1\<rparr>" by (simp add: Let_def)
    with d show ?thesis by simp
  qed
qed

lemma compileRows_merged:
  "compileRows E t rows s = (None, s') \<Longrightarrow> Inr j \<in> set rows \<Longrightarrow>
   x \<in> set (Walk E (extensionDir j t)) \<Longrightarrow> isScript x \<Longrightarrow>
     virtualPath E (wPath x) (extensionDir j t) t \<in> dom (compiledStateList.List s')"
proof (induction rows arbitrary: s)
  case Nil
  then show ?case by simp
next
  case (Cons r rows)
  show ?case
  proof (cases r)
    case (Inl err)
    with Cons.prems(1) show ?thesis by simp
  next
    case (Inr i)
    let ?dir = "extensionDir i t"
    obtain r1 m1 where w: "walkLoop (compileExtensionFn E ?dir t) (Walk E ?dir)
        (compiledStateList.List s) = (r1, m1)"
      by (cases "walkLoop (compileExtensionFn E ?dir t) (Walk E ?dir) (compiledStateList.List s)")
    from Cons.prems(1) Inr w have r1: "r1 = None"
      by (cases r1) (simp_all add: Let_def)
    from Cons.prems(1) Inr w r1 have rest:
      "compileRows E t rows (s\<lparr>compiledStateList.List := m1\<rparr>) = (None, s')"
      by (simp add: Let_def)
    show ?thesis
    proof (cases "Inr j \<in> set rows")
      case True
      from Cons.IH [OF rest True Cons.prems(3,4)] show ?thesis .
    next
      case False
      with Cons.prems(2) Inr have "i = j" by simp
      with walkLoop_extension_merged [OF w [unfolded r1]] Cons.prems(3,4)
      have "virtualPath E (wPath x) (extensionDir j t) t \<in> dom m1" by blast
      moreover from compileRows_dom [OF rest] have "dom m1 \<subseteq> dom (compiledStateList.List s')"
        by simp
      ultimately show ?thesis by blast
    qed
  qed
qed

text \<open>
  C10. \<^verbatim>\<open>CompileExtensions\<close> merges as it walks. When a script of an extension fails
  to compile, after earlier extensions and earlier entries of the same walk have passed,
  the call returns that error and the registry it leaves is the one reached just before
  the failure: the keys present at the call are still registered, so is the virtual path
  of every script of every earlier extension, and so is the virtual path of every script
  walked before the failing one.
\<close>

theorem CompileExtensions_not_atomic:
  assumes q: "Queryx E (extensionQuery extType) = Inr (pre @ Inr extensionID # post)"
      and p: "compileRows E extType pre s = (None, s1)"
      and w: "Walk E (extensionDir extensionID extType) = wpre @ e # wpost"
      and wp: "walkLoop (compileExtensionFn E (extensionDir extensionID extType) extType) wpre
                 (compiledStateList.List s1) = (None, list)"
      and e: "isScript e" "CompileLua E (wPath e) = Inl err"
  shows "CompileExtensions E s extType = (Some err, s1\<lparr>compiledStateList.List := list\<rparr>)
       \<and> dom (compiledStateList.List s) \<subseteq> dom (compiledStateList.List s1)
       \<and> dom (compiledStateList.List s1) \<subseteq> dom list
       \<and> (\<forall>j x. Inr j \<in> set pre \<and> x \<in> set (Walk E (extensionDir j extType)) \<and> isScript x
             \<longrightarrow> virtualPath E (wPath x) (extensionDir j extType) extType \<in> dom list)
       \<and> (\<forall>x \<in> set wpre. isScript x \<longrightarrow>
             virtualPath E (wPath x) (extensionDir extensionID extType) extType \<in> dom list)"
proof -
  let ?dir = "extensionDir extensionID extType"
  have "walkLoop (compileExtensionFn E ?dir extType) (wpre @ e # wpost)
          (compiledStateList.List s1) = (Some err, list)"
    using wp compileExtensionFn_fails [OF e] by (simp add: walkLoop_append)
  then have "compileRows E extType (Inr extensionID # post) s1
      = (Some err, s1\<lparr>compiledStateList.List := list\<rparr>)"
    by (simp add: w Let_def)
  then have "compileRows E extType (pre @ Inr extensionID # post) s
      = (Some err, s1\<lparr>compiledStateList.List := list\<rparr>)"
    using p by (simp add: compileRows_append)
  then have a: "CompileExtensions E s extType = (Some err, s1\<lparr>compiledStateList.List := list\<rparr>)"
    by (simp add: CompileExtensions_def q)
  have d: "dom (compiledStateList.List s1) \<subseteq> dom list"
    using walkLoop_extension_dom [OF wp] .
  have b: "virtualPath E (wPath x) (extensionDir j extType) extType \<in> dom list"
    if "Inr j \<in> set pre" "x \<in> set (Walk E (extensionDir j extType))" "isScript x" for j x
    using compileRows_merged [OF p that] d by blast
  from compileRows_dom [OF p] d walkLoop_extension_merged [OF wp] a b
  show ?thesis by blast
qed

lemma vp_index_ascii:
  "toLowerASCII (Replace ''extensions/42/pages/Index.lua'' ''extensions/42/pages'' ''pages'')
     = ''pages/index.lua''"
  by code_simp

lemma vp_index:
  assumes "ToLower E = toLowerASCII"
  shows "virtualPath E ''extensions/42/pages/Index.lua'' ''extensions/42/pages'' ''pages''
     = ''pages/index.lua''"
  unfolding virtualPath_def assms by (rule vp_index_ascii)

lemma vp_shop_ascii:
  "toLowerASCII (Replace ''extensions/42/pages/shop.lua'' ''extensions/42/pages'' ''pages'')
     = ''pages/shop.lua''"
  by code_simp

lemma vp_shop:
  assumes "ToLower E = toLowerASCII"
  shows "virtualPath E ''extensions/42/pages/shop.lua'' ''extensions/42/pages'' ''pages''
     = ''pages/shop.lua''"
  unfolding virtualPath_def assms by (rule vp_shop_ascii)

lemma query_pages:
  "extensionQuery ''pages'' = ''SELECT extension_id FROM castro_extension_pages WHERE enabled = 1''"
  by code_simp

lemma dir_42: "extensionDir ''42'' ''pages'' = ''extensions/42/pages''"
  by code_simp

lemma dir_gone: "extensionDir ''gone'' ''pages'' = ''extensions/gone/pages''"
  by code_simp

lemma later_lower [simp]: "ToLower laterExtern = toLowerASCII"
  by (simp add: laterExtern_def)

lemma dir_77: "extensionDir ''77'' ''pages'' = ''extensions/77/pages''"
  by code_simp

lemma vp_news_ascii:
  "toLowerASCII (Replace ''extensions/77/pages/news.lua'' ''extensions/77/pages'' ''pages'')
     = ''pages/news.lua''"
  by code_simp

lemma vp_news:
  assumes "ToLower E = toLowerASCII"
  shows "virtualPath E ''extensions/77/pages/news.lua'' ''extensions/77/pages'' ''pages''
     = ''pages/news.lua''"
  unfolding virtualPath_def assms by (rule vp_news_ascii)

lemma later_query:
  "Queryx laterExtern (extensionQuery ''pages'') = Inr ([Inr ''42''] @ Inr ''77'' # [])"
  by (simp add: laterExtern_def)

lemma later_first:
  "compileRows laterExtern ''pages'' [Inr ''42''] emptyRegistry =
     (None, emptyRegistry\<lparr>compiledStateList.List :=
        [''pages/index.lua'' \<mapsto> 2, ''pages/shop.lua'' \<mapsto> 3]\<rparr>)"
  by (simp add: dir_42 vp_index vp_shop laterExtern_def demoExtern_def compileExtensionFn_def
      dirEntry_def fileEntry_def HasSuffix_def emptyRegistry_def)

lemma later_walk:
  "Walk laterExtern (extensionDir ''77'' ''pages'') =
     [dirEntry ''extensions/77/pages'' ''pages'',
      fileEntry ''extensions/77/pages/news.lua'' ''news.lua'']
     @ fileEntry ''extensions/77/pages/bad.lua'' ''bad.lua'' # []"
  by (simp add: dir_77 laterExtern_def)

lemma later_walk_pre:
  "walkLoop (compileExtensionFn laterExtern (extensionDir ''77'' ''pages'') ''pages'')
     [dirEntry ''extensions/77/pages'' ''pages'',
      fileEntry ''extensions/77/pages/news.lua'' ''news.lua'']
     (compiledStateList.List (emptyRegistry\<lparr>compiledStateList.List :=
        [''pages/index.lua'' \<mapsto> 2, ''pages/shop.lua'' \<mapsto> 3]\<rparr>))
   = (None, [''pages/index.lua'' \<mapsto> 2, ''pages/shop.lua'' \<mapsto> 3, ''pages/news.lua'' \<mapsto> 4])"
  by (simp add: dir_77 vp_news compileExtensionFn_def dirEntry_def fileEntry_def HasSuffix_def
      laterExtern_def)

lemma isScript_bad: "isScript (fileEntry ''extensions/77/pages/bad.lua'' ''bad.lua'')"
  by (simp add: isScript_def fileEntry_def HasSuffix_def)

lemma later_bad:
  "CompileLua laterExtern (wPath (fileEntry ''extensions/77/pages/bad.lua'' ''bad.lua''))
     = Inl ''syntax error''"
  by (simp add: laterExtern_def demoExtern_def fileEntry_def)

lemma later_member:
  "(Inr ''42'' :: error + string) \<in> set [Inr ''42''] \<and>
   fileEntry ''extensions/42/pages/shop.lua'' ''shop.lua''
     \<in> set (Walk laterExtern (extensionDir ''42'' ''pages'')) \<and>
   isScript (fileEntry ''extensions/42/pages/shop.lua'' ''shop.lua'')"
  by (simp add: dir_42 laterExtern_def demoExtern_def isScript_def fileEntry_def HasSuffix_def)

theorem CompileExtensions_not_atomic_witness:
  "CompileExtensions laterExtern emptyRegistry ''pages'' =
     (Some ''syntax error'',
      emptyRegistry\<lparr>compiledStateList.List :=
        [''pages/index.lua'' \<mapsto> 2, ''pages/shop.lua'' \<mapsto> 3, ''pages/news.lua'' \<mapsto> 4]\<rparr>)
   \<and> compiledStateList.List emptyRegistry = Map.empty
   \<and> virtualPath laterExtern (wPath (fileEntry ''extensions/42/pages/shop.lua'' ''shop.lua''))
        (extensionDir ''42'' ''pages'') ''pages''
        \<in> dom [''pages/index.lua'' \<mapsto> 2, ''pages/shop.lua'' \<mapsto> 3, ''pages/news.lua'' \<mapsto> (4::nat)]"
proof -
  note th = CompileExtensions_not_atomic [OF later_query later_first later_walk later_walk_pre
      isScript_bad later_bad]
  from th have a: "CompileExtensions laterExtern emptyRegistry ''pages'' =
     (Some ''syntax error'',
      emptyRegistry\<lparr>compiledStateList.List :=
        [''pages/index.lua'' \<mapsto> 2, ''pages/shop.lua'' \<mapsto> 3, ''pages/news.lua'' \<mapsto> 4]\<rparr>)"
    by simp
  from th have "\<forall>j x. (Inr j :: error + string) \<in> set [Inr ''42''] \<and> x \<in> set (Walk laterExtern (extensionDir j ''pages''))
        \<and> isScript x
      \<longrightarrow> virtualPath laterExtern (wPath x) (extensionDir j ''pages'') ''pages''
          \<in> dom [''pages/index.lua'' \<mapsto> 2, ''pages/shop.lua'' \<mapsto> 3, ''pages/news.lua'' \<mapsto> (4::nat)]"
    by (rule conjunct2 [THEN conjunct2, THEN conjunct2, THEN conjunct1])
  with later_member have b:
    "virtualPath laterExtern (wPath (fileEntry ''extensions/42/pages/shop.lua'' ''shop.lua''))
        (extensionDir ''42'' ''pages'') ''pages''
        \<in> dom [''pages/index.lua'' \<mapsto> 2, ''pages/shop.lua'' \<mapsto> 3, ''pages/news.lua'' \<mapsto> (4::nat)]"
    by blast
  from a b show ?thesis by (simp add: emptyRegistry_def)
qed

text \<open>
  C6. An enabled extension whose directory is absent. \<^verbatim>\<open>LoadExtensions\<close> tests the
  directory with \<^verbatim>\<open>os.Stat\<close>, logs and goes on to the next extension;
  \<^verbatim>\<open>CompileExtensions\<close> has no such test, \<^verbatim>\<open>filepath.Walk\<close> hands the error of
  the missing root to the callback, the callback returns it and the whole call fails. On
  the installation with the page extensions 42 and \<^verbatim>\<open>gone\<close>:
\<close>

theorem CompileExtensions_missing_directory:
  "Queryx demoExtern (extensionQuery ''pages'') = Inr [Inr ''42'', Inr ''gone'']
   \<and> Stat demoExtern (extensionDir ''gone'' ''pages'') = Some (''no such file or directory'', True)
   \<and> Walk demoExtern (extensionDir ''gone'' ''pages'')
       = [failedEntry ''extensions/gone/pages'' ''no such file or directory'']
   \<and> fst (CompileExtensions demoExtern demoRegistry ''pages'') = Some ''no such file or directory''
   \<and> fst (LoadExtensions demoExtern ''page'' demoLoadState) = None
   \<and> lsLog (snd (LoadExtensions demoExtern ''page'' demoLoadState))
       = [''Missing pages directory in extension gone'']"
  by (simp add: query_pages dir_42 dir_gone vp_index vp_shop demoExtern_def CompileExtensions_def
      LoadExtensions_def compileExtensionFn_def dirEntry_def fileEntry_def failedEntry_def
      HasSuffix_def demoLoadState_def emptyHeap_def NewState_def slot_def)

subsection \<open>Lookups and the case of a path\<close>

lemma pool_same_bucket:
  "ToLower E p = ToLower E q \<Longrightarrow>
     stateList_Get E w p = stateList_Get E w q
     \<and> stateList_Put E w inst p = stateList_Put E w inst q"
  by (simp add: stateList_Get_def stateList_Put_def)

lemma rangeGet_unique:
  assumes "m k = Some proto" "k \<in> set ks"
     and "\<And>k'. k' \<in> set ks \<Longrightarrow> m k' \<noteq> None \<Longrightarrow> ToLower E k' = path \<Longrightarrow> k' = k"
     and "ToLower E k = path"
  shows "rangeGet E m ks path = Inr proto"
  using assms(2,3)
proof (induction ks)
  case Nil
  then show ?case by simp
next
  case (Cons p ps)
  have rest: "k \<in> set ps \<Longrightarrow> rangeGet E m ps path = Inr proto"
    using Cons.IH Cons.prems(2) by simp
  show ?case
  proof (cases "m p")
    case None
    with assms(1) have "p \<noteq> k" by auto
    with Cons.prems(1) have "k \<in> set ps" by simp
    with rest None show ?thesis by simp
  next
    case (Some q)
    show ?thesis
    proof (cases "ToLower E p = path")
      case True
      have "p = k" using Cons.prems(2)[of p] Some True by simp
      with Some assms(1) True show ?thesis by simp
    next
      case False
      with assms(4) have "p \<noteq> k" by auto
      with Cons.prems(1) have "k \<in> set ps" by simp
      with rest Some False show ?thesis by simp
    qed
  qed
qed

lemma case_lower [simp]: "ToLower caseExtern = toLowerASCII"
  by (simp add: caseExtern_def)

lemma lower_Index: "toLowerASCII ''pages/Index.lua'' = ''pages/index.lua''"
  by code_simp

lemma lower_shop: "toLowerASCII ''pages/shop.lua'' = ''pages/shop.lua''"
  by code_simp

lemma case_primary:
  "CompileFiles caseExtern emptyRegistry ''pages'' =
     (None, emptyRegistry\<lparr>compiledStateList.List := [''pages/Index.lua'' \<mapsto> 5]\<rparr>)"
  by (simp add: CompileFiles_def caseExtern_def compileFilesFn_def dirEntry_def fileEntry_def
      HasSuffix_def)

lemma case_extensions:
  "CompileExtensions caseExtern
     (emptyRegistry\<lparr>compiledStateList.List := [''pages/Index.lua'' \<mapsto> 5]\<rparr>) ''pages'' =
     (None, emptyRegistry\<lparr>compiledStateList.List :=
        [''pages/Index.lua'' \<mapsto> 5, ''pages/index.lua'' \<mapsto> 2, ''pages/shop.lua'' \<mapsto> 3]\<rparr>)"
  by (simp add: CompileExtensions_def dir_42 vp_index vp_shop caseExtern_def demoExtern_def
      compileExtensionFn_def dirEntry_def fileEntry_def HasSuffix_def)

lemma caseRegistry_List:
  "compiledStateList.List caseRegistry =
     [''pages/Index.lua'' \<mapsto> 5, ''pages/index.lua'' \<mapsto> 2, ''pages/shop.lua'' \<mapsto> 3]"
  by (simp add: caseRegistry_def case_primary case_extensions)

text \<open>
  C2. The pool lower-cases the path before anything else, so two paths equal up to case
  reach the same bucket. The registry does not hold the claim: \<^verbatim>\<open>CompileFiles\<close>
  registers a script under its path as walked, \<^verbatim>\<open>CompileExtensions\<close> under the
  lower-cased virtual path, so with \<^verbatim>\<open>pages/Index.lua\<close> in the primary tree and an
  \<^verbatim>\<open>Index.lua\<close> in extension 42 both units are registered, under keys equal up to
  case, and \<^verbatim>\<open>compiledStateList.Get\<close> returns the unit whose key its
  \<^verbatim>\<open>range\<close> happens to visit first: unit 5 or unit 2, for either spelling of the
  path.
\<close>

theorem compiled_lookup_follows_visiting_order:
  "fst (CompileFiles caseExtern emptyRegistry ''pages'') = None
   \<and> fst (CompileExtensions caseExtern (snd (CompileFiles caseExtern emptyRegistry ''pages''))
           ''pages'') = None
   \<and> compiledStateList.List caseRegistry ''pages/Index.lua'' = Some 5
   \<and> compiledStateList.List caseRegistry ''pages/index.lua'' = Some 2
   \<and> compiledStateList_Get caseExtern caseRegistry
        [''pages/Index.lua'', ''pages/index.lua'', ''pages/shop.lua''] ''pages/index.lua'' = Inr 5
   \<and> compiledStateList_Get caseExtern caseRegistry
        [''pages/index.lua'', ''pages/Index.lua'', ''pages/shop.lua''] ''Pages/Index.lua'' = Inr 2
   \<and> compiledStateList_Get caseExtern caseRegistry
        [''pages/index.lua'', ''pages/Index.lua'', ''pages/shop.lua''] ''pages/index.lua'' = Inr 2
   \<and> compiledStateList_Get caseExtern caseRegistry
        [''pages/Index.lua'', ''pages/index.lua'', ''pages/shop.lua''] ''Pages/Index.lua'' = Inr 5"
  by (simp add: case_primary case_extensions caseRegistry_List compiledStateList_Get_def
      lower_demo lower_plain lower_Index lower_shop)

subsection \<open>Loading extensions\<close>

lemma loadSubtopics_widgets_no_error:
  "fst (loadSubtopics E ''widgets'' i d fs st) = None"
  by (induction fs arbitrary: st) (auto simp: Let_def split: sum.splits)

lemma loadSubtopics_widgets_subset:
  "set (lsWidgets (snd (loadSubtopics E t i d fs st))) \<subseteq> set (lsWidgets st)"
proof (induction fs arbitrary: st)
  case Nil
  then show ?case by simp
next
  case (Cons f fs)
  show ?case
  proof (cases "DoFile E f (GetApplicationState E NewState)")
    case (Inl err)
    show ?thesis
    proof (cases "t = ''widgets''")
      case True
      let ?st = "st\<lparr>lsLog := lsLog st @ [''Cannot load widgets in extension: '' @ i @ '' '' @ err],
                     lsWidgets := UnloadExtensionWidget (widgetName f) (lsWidgets st)\<rparr>"
      have "set (lsWidgets (snd (loadSubtopics E t i d fs ?st))) \<subseteq> set (lsWidgets ?st)"
        by (rule Cons.IH)
      also have "\<dots> \<subseteq> set (lsWidgets st)"
        by (auto simp: UnloadExtensionWidget_def)
      finally show ?thesis using Inl True by simp
    next
      case False
      with Inl show ?thesis by simp
    qed
  next
    case (Inr state)
    let ?p = "virtualPath E f d t"
    let ?h = "lsHeap st"
    let ?st = "st\<lparr>lsList := (lsList st)(?p \<mapsto> slot (lsList st) ?p @ [nextAddr ?h]),
                   lsHeap := ?h\<lparr>cells := (cells ?h)(nextAddr ?h \<mapsto> state),
                                nextAddr := Suc (nextAddr ?h)\<rparr>\<rparr>"
    have "set (lsWidgets (snd (loadSubtopics E t i d fs ?st))) \<subseteq> set (lsWidgets ?st)"
      by (rule Cons.IH)
    then show ?thesis using Inr by (simp add: Let_def)
  qed
qed

lemma loadSubtopics_widgets_removed:
  "f \<in> set fs \<Longrightarrow> DoFile E f (GetApplicationState E NewState) = Inl e \<Longrightarrow>
     widgetName f \<notin> set (lsWidgets (snd (loadSubtopics E ''widgets'' i d fs st)))"
proof (induction fs arbitrary: st)
  case Nil
  then show ?case by simp
next
  case (Cons g fs)
  show ?case
  proof (cases "DoFile E g (GetApplicationState E NewState)")
    case (Inl err)
    let ?st = "st\<lparr>lsLog := lsLog st @ [''Cannot load widgets in extension: '' @ i @ '' '' @ err],
                   lsWidgets := UnloadExtensionWidget (widgetName g) (lsWidgets st)\<rparr>"
    have step: "loadSubtopics E ''widgets'' i d (g # fs) st = loadSubtopics E ''widgets'' i d fs ?st"
      using Inl by simp
    show ?thesis
    proof (cases "f = g")
      case True
      have "widgetName g \<notin> set (lsWidgets ?st)"
        by (simp add: UnloadExtensionWidget_def)
      with loadSubtopics_widgets_subset [of E "''widgets''" i d fs ?st] True step
      show ?thesis by auto
    next
      case False
      with Cons.prems have "f \<in> set fs" by simp
      from Cons.IH [OF this Cons.prems(2)] step show ?thesis by simp
    qed
  next
    case (Inr state)
    with Cons.prems have "f \<noteq> g" by auto
    with Cons.prems have "f \<in> set fs" by simp
    from Cons.IH [OF this Cons.prems(2)] Inr show ?thesis by (simp add: Let_def)
  qed
qed

lemma slot_update_grows: "\<exists>ys. slot (m(p \<mapsto> slot m p @ [a])) k = slot m k @ ys"
  by (simp add: slot_def)

lemma loadSubtopics_slots_grow:
  "\<exists>ys. slot (lsList (snd (loadSubtopics E t i d fs st))) k = slot (lsList st) k @ ys"
proof (induction fs arbitrary: st)
  case Nil
  then show ?case by simp
next
  case (Cons f fs)
  show ?case
  proof (cases "DoFile E f (GetApplicationState E NewState)")
    case (Inl err)
    show ?thesis
    proof (cases "t = ''widgets''")
      case True
      let ?st = "st\<lparr>lsLog := lsLog st @ [''Cannot load widgets in extension: '' @ i @ '' '' @ err],
                     lsWidgets := UnloadExtensionWidget (widgetName f) (lsWidgets st)\<rparr>"
      from Cons.IH [of ?st] Inl True show ?thesis by simp
    next
      case False
      with Inl show ?thesis by simp
    qed
  next
    case (Inr state)
    let ?p = "virtualPath E f d t"
    let ?h = "lsHeap st"
    let ?st = "st\<lparr>lsList := (lsList st)(?p \<mapsto> slot (lsList st) ?p @ [nextAddr ?h]),
                   lsHeap := ?h\<lparr>cells := (cells ?h)(nextAddr ?h \<mapsto> state),
                                nextAddr := Suc (nextAddr ?h)\<rparr>\<rparr>"
    from Cons.IH [of ?st] obtain ys where
      "slot (lsList (snd (loadSubtopics E t i d fs ?st))) k = slot (lsList ?st) k @ ys" ..
    moreover obtain zs where "slot (lsList ?st) k = slot (lsList st) k @ zs"
      using slot_update_grows [of "lsList st" ?p "nextAddr ?h" k] by auto
    ultimately show ?thesis using Inr by (simp add: Let_def)
  qed
qed

lemma loadSubtopics_loaded:
  "fst (loadSubtopics E t i d fs st) = None \<Longrightarrow> f \<in> set fs \<Longrightarrow>
   DoFile E f (GetApplicationState E NewState) = Inr x \<Longrightarrow>
     slot (lsList (snd (loadSubtopics E t i d fs st))) (virtualPath E f d t) \<noteq> []"
proof (induction fs arbitrary: st)
  case Nil
  then show ?case by simp
next
  case (Cons g fs)
  show ?case
  proof (cases "DoFile E g (GetApplicationState E NewState)")
    case (Inl err)
    show ?thesis
    proof (cases "t = ''widgets''")
      case True
      let ?st = "st\<lparr>lsLog := lsLog st @ [''Cannot load widgets in extension: '' @ i @ '' '' @ err],
                     lsWidgets := UnloadExtensionWidget (widgetName g) (lsWidgets st)\<rparr>"
      have step: "loadSubtopics E t i d (g # fs) st = loadSubtopics E t i d fs ?st"
        using Inl True by simp
      from Inl Cons.prems have "f \<noteq> g" by auto
      with Cons.prems have "f \<in> set fs" by simp
      from Cons.IH [of ?st, OF _ this Cons.prems(3)] Cons.prems(1) step show ?thesis by simp
    next
      case False
      with Inl Cons.prems(1) show ?thesis by simp
    qed
  next
    case (Inr state)
    let ?p = "virtualPath E g d t"
    let ?h = "lsHeap st"
    let ?st = "st\<lparr>lsList := (lsList st)(?p \<mapsto> slot (lsList st) ?p @ [nextAddr ?h]),
                   lsHeap := ?h\<lparr>cells := (cells ?h)(nextAddr ?h \<mapsto> state),
                                nextAddr := Suc (nextAddr ?h)\<rparr>\<rparr>"
    have step: "loadSubtopics E t i d (g # fs) st = loadSubtopics E t i d fs ?st"
      using Inr by (simp add: Let_def)
    show ?thesis
    proof (cases "f = g")
      case True
      have "slot (lsList ?st) (virtualPath E f d t) \<noteq> []"
        using True by (simp add: slot_def)
      moreover obtain ys where "slot (lsList (snd (loadSubtopics E t i d fs ?st))) (virtualPath E f d t)
          = slot (lsList ?st) (virtualPath E f d t) @ ys"
        using loadSubtopics_slots_grow [of E t i d fs ?st "virtualPath E f d t"] by blast
      ultimately show ?thesis using step by simp
    next
      case False
      with Cons.prems have "f \<in> set fs" by simp
      from Cons.IH [of ?st, OF _ this Cons.prems(3)] Cons.prems(1) step show ?thesis by simp
    qed
  qed
qed

lemma loadSubtopics_page_error:
  "t \<noteq> ''widgets'' \<Longrightarrow> fst (loadSubtopics E t i d fs st) = Some x \<Longrightarrow>
     \<exists>f e. f \<in> set fs \<and> DoFile E f (GetApplicationState E NewState) = Inl e
        \<and> x = ''extension: '' @ i @ '' '' @ e"
proof (induction fs arbitrary: st)
  case Nil
  then show ?case by simp
next
  case (Cons g fs)
  show ?case
  proof (cases "DoFile E g (GetApplicationState E NewState)")
    case (Inl err)
    with Cons.prems have "x = ''extension: '' @ i @ '' '' @ err" by simp
    with Inl show ?thesis by auto
  next
    case (Inr state)
    let ?p = "virtualPath E g d t"
    let ?h = "lsHeap st"
    let ?st = "st\<lparr>lsList := (lsList st)(?p \<mapsto> slot (lsList st) ?p @ [nextAddr ?h]),
                   lsHeap := ?h\<lparr>cells := (cells ?h)(nextAddr ?h \<mapsto> state),
                                nextAddr := Suc (nextAddr ?h)\<rparr>\<rparr>"
    from Cons.prems(2) Inr have "fst (loadSubtopics E t i d fs ?st) = Some x"
      by (simp add: Let_def)
    from Cons.IH [OF Cons.prems(1) this] show ?thesis by auto
  qed
qed

lemma loadSubtopics_page_ok:
  "t \<noteq> ''widgets'' \<Longrightarrow> fst (loadSubtopics E t i d fs st) = None \<Longrightarrow> f \<in> set fs \<Longrightarrow>
     \<exists>x. DoFile E f (GetApplicationState E NewState) = Inr x"
proof (induction fs arbitrary: st)
  case Nil
  then show ?case by simp
next
  case (Cons g fs)
  show ?case
  proof (cases "DoFile E g (GetApplicationState E NewState)")
    case (Inl err)
    with Cons.prems show ?thesis by simp
  next
    case (Inr state)
    let ?p = "virtualPath E g d t"
    let ?h = "lsHeap st"
    let ?st = "st\<lparr>lsList := (lsList st)(?p \<mapsto> slot (lsList st) ?p @ [nextAddr ?h]),
                   lsHeap := ?h\<lparr>cells := (cells ?h)(nextAddr ?h \<mapsto> state),
                                nextAddr := Suc (nextAddr ?h)\<rparr>\<rparr>"
    from Cons.prems(2) Inr have r: "fst (loadSubtopics E t i d fs ?st) = None"
      by (simp add: Let_def)
    show ?thesis
    proof (cases "f = g")
      case True
      with Inr show ?thesis by simp
    next
      case False
      with Cons.prems have "f \<in> set fs" by simp
      from Cons.IH [OF Cons.prems(1) r this] show ?thesis .
    qed
  qed
qed

lemma loadRows_skip:
  "Stat E (extensionDir i t) = Some (err, ne) \<Longrightarrow>
     loadRows E t (Inr i # rows) st =
       loadRows E t rows
         (if ne then st\<lparr>lsLog := lsLog st @ [''Missing '' @ t @ '' directory in extension '' @ i]\<rparr>
          else st)"
  by (simp add: Let_def)

lemma loadRows_load:
  "Stat E (extensionDir i t) = None \<Longrightarrow> GetLuaFiles E (extensionDir i t) = Inr fs \<Longrightarrow>
     loadRows E t (Inr i # rows) st =
       (case loadSubtopics E t i (extensionDir i t) fs st of
          (Some err, st') \<Rightarrow> (Some err, st')
        | (None, st') \<Rightarrow> loadRows E t rows st')"
  by (simp add: Let_def)

lemma loadRows_widgets_no_error:
  "\<forall>i \<in> set ids. Stat E (extensionDir i ''widgets'') = None
       \<longrightarrow> (\<exists>fs. GetLuaFiles E (extensionDir i ''widgets'') = Inr fs) \<Longrightarrow>
     fst (loadRows E ''widgets'' (map Inr ids) st) = None"
proof (induction ids arbitrary: st)
  case Nil
  then show ?case by simp
next
  case (Cons i ids)
  have rest: "fst (loadRows E ''widgets'' (map Inr ids) st') = None" for st'
    using Cons.IH Cons.prems by simp
  show ?case
  proof (cases "Stat E (extensionDir i ''widgets'')")
    case None
    with Cons.prems obtain fs where fs: "GetLuaFiles E (extensionDir i ''widgets'') = Inr fs"
      by auto
    obtain st' where "loadSubtopics E ''widgets'' i (extensionDir i ''widgets'') fs st = (None, st')"
      using loadSubtopics_widgets_no_error [of E i "extensionDir i ''widgets''" fs st]
      by (cases "loadSubtopics E ''widgets'' i (extensionDir i ''widgets'') fs st") auto
    with rest [of st'] loadRows_load [OF None fs, of "map Inr ids" st] show ?thesis
      by (simp del: loadRows.simps)
  next
    case (Some a)
    obtain err ne where "a = (err, ne)" by (cases a)
    with Some rest loadRows_skip [of E i "''widgets''" err ne "map Inr ids" st] show ?thesis
      by (simp del: loadRows.simps)
  qed
qed

lemma loadRows_widgets_subset:
  "set (lsWidgets (snd (loadRows E t rows st))) \<subseteq> set (lsWidgets st)"
proof (induction rows arbitrary: st)
  case Nil
  then show ?case by simp
next
  case (Cons r rows)
  show ?case
  proof (cases r)
    case (Inl err)
    then show ?thesis by simp
  next
    case (Inr i)
    let ?dir = "extensionDir i t"
    show ?thesis
    proof (cases "Stat E ?dir")
      case None
      show ?thesis
      proof (cases "GetLuaFiles E ?dir")
        case (Inl err)
        with None Inr show ?thesis by (simp add: Let_def)
      next
        case fs: (Inr fs)
        obtain x st' where l: "loadSubtopics E t i ?dir fs st = (x, st')"
          by (cases "loadSubtopics E t i ?dir fs st")
        have sub: "set (lsWidgets st') \<subseteq> set (lsWidgets st)"
          using loadSubtopics_widgets_subset [of E t i ?dir fs st] l by simp
        have "set (lsWidgets (snd (loadRows E t rows st'))) \<subseteq> set (lsWidgets st')"
          by (rule Cons.IH)
        with sub l loadRows_load [OF None fs, of rows st] Inr show ?thesis
          by (cases x) (auto simp del: loadRows.simps)
      qed
    next
      case (Some a)
      obtain err ne where a: "a = (err, ne)" by (cases a)
      let ?st = "if ne then st\<lparr>lsLog := lsLog st @ [''Missing '' @ t @ '' directory in extension '' @ i]\<rparr>
          else st"
      have "set (lsWidgets (snd (loadRows E t rows ?st))) \<subseteq> set (lsWidgets ?st)"
        by (rule Cons.IH)
      moreover have "lsWidgets ?st = lsWidgets st" by simp
      ultimately show ?thesis
        using loadRows_skip [of E i t err ne rows st] Some a Inr
        by (simp del: loadRows.simps)
    qed
  qed
qed

lemma loadRows_slots_grow:
  "\<exists>ys. slot (lsList (snd (loadRows E t rows st))) k = slot (lsList st) k @ ys"
proof (induction rows arbitrary: st)
  case Nil
  then show ?case by simp
next
  case (Cons r rows)
  show ?case
  proof (cases r)
    case (Inl err)
    then show ?thesis by simp
  next
    case (Inr i)
    let ?dir = "extensionDir i t"
    show ?thesis
    proof (cases "Stat E ?dir")
      case None
      show ?thesis
      proof (cases "GetLuaFiles E ?dir")
        case (Inl err)
        with None Inr show ?thesis by (simp add: Let_def)
      next
        case fs: (Inr fs)
        obtain x st' where l: "loadSubtopics E t i ?dir fs st = (x, st')"
          by (cases "loadSubtopics E t i ?dir fs st")
        obtain ys where g1: "slot (lsList st') k = slot (lsList st) k @ ys"
          using loadSubtopics_slots_grow [of E t i ?dir fs st k] l by auto
        obtain zs where g2: "slot (lsList (snd (loadRows E t rows st'))) k = slot (lsList st') k @ zs"
          using Cons.IH [of st'] by blast
        from g1 g2 l loadRows_load [OF None fs, of rows st] Inr show ?thesis
          by (cases x) (auto simp del: loadRows.simps)
      qed
    next
      case (Some a)
      obtain err ne where a: "a = (err, ne)" by (cases a)
      let ?st = "if ne then st\<lparr>lsLog := lsLog st @ [''Missing '' @ t @ '' directory in extension '' @ i]\<rparr>
          else st"
      obtain zs where "slot (lsList (snd (loadRows E t rows ?st))) k = slot (lsList ?st) k @ zs"
        using Cons.IH [of ?st] by blast
      moreover have "lsList ?st = lsList st" by simp
      ultimately show ?thesis
        using loadRows_skip [of E i t err ne rows st] Some a Inr
        by (simp del: loadRows.simps)
    qed
  qed
qed

lemma loadRows_widgets_removed:
  assumes H: "\<forall>j \<in> set ids. Stat E (extensionDir j ''widgets'') = None
       \<longrightarrow> (\<exists>fs. GetLuaFiles E (extensionDir j ''widgets'') = Inr fs)"
    and i: "i \<in> set ids" "Stat E (extensionDir i ''widgets'') = None"
           "GetLuaFiles E (extensionDir i ''widgets'') = Inr fs"
    and f: "f \<in> set fs" "DoFile E f (GetApplicationState E NewState) = Inl e"
  shows "widgetName f \<notin> set (lsWidgets (snd (loadRows E ''widgets'' (map Inr ids) st)))"
  using H i(1)
proof (induction ids arbitrary: st)
  case Nil
  then show ?case by simp
next
  case (Cons j ids)
  have rest: "i \<in> set ids \<Longrightarrow>
      widgetName f \<notin> set (lsWidgets (snd (loadRows E ''widgets'' (map Inr ids) st')))" for st'
    using Cons.IH Cons.prems(1) by simp
  let ?dir = "extensionDir j ''widgets''"
  show ?case
  proof (cases "Stat E ?dir")
    case None
    with Cons.prems(1) obtain fs' where fs': "GetLuaFiles E ?dir = Inr fs'" by auto
    obtain st' where l: "loadSubtopics E ''widgets'' j ?dir fs' st = (None, st')"
      using loadSubtopics_widgets_no_error [of E j ?dir fs' st]
      by (cases "loadSubtopics E ''widgets'' j ?dir fs' st") auto
    have step: "loadRows E ''widgets'' (map Inr (j # ids)) st = loadRows E ''widgets'' (map Inr ids) st'"
      using loadRows_load [OF None fs', of "map Inr ids" st] l by (simp del: loadRows.simps)
    show ?thesis
    proof (cases "j = i")
      case True
      with fs' i(3) have "fs' = fs" by simp
      with loadSubtopics_widgets_removed [OF f, of j ?dir st] l
      have "widgetName f \<notin> set (lsWidgets st')" by simp
      with loadRows_widgets_subset [of E "''widgets''" "map Inr ids" st'] step
      show ?thesis by auto
    next
      case False
      with Cons.prems(2) have "i \<in> set ids" by simp
      from rest [OF this] step show ?thesis by simp
    qed
  next
    case (Some a)
    obtain err ne where a: "a = (err, ne)" by (cases a)
    from Some i(2) have "j \<noteq> i" by auto
    with Cons.prems(2) have "i \<in> set ids" by simp
    from rest [OF this] loadRows_skip [of E j "''widgets''" err ne "map Inr ids" st] Some a
    show ?thesis by (simp del: loadRows.simps)
  qed
qed

lemma loadRows_loaded:
  assumes i: "Stat E (extensionDir i t) = None" "GetLuaFiles E (extensionDir i t) = Inr fs"
    and f: "f \<in> set fs" "DoFile E f (GetApplicationState E NewState) = Inr x"
  shows "fst (loadRows E t (map Inr ids) st) = None \<Longrightarrow> i \<in> set ids \<Longrightarrow>
    slot (lsList (snd (loadRows E t (map Inr ids) st))) (virtualPath E f (extensionDir i t) t) \<noteq> []"
proof (induction ids arbitrary: st)
  case Nil
  then show ?case by simp
next
  case (Cons j ids)
  let ?dir = "extensionDir j t"
  let ?vp = "virtualPath E f (extensionDir i t) t"
  show ?case
  proof (cases "Stat E ?dir")
    case None
    show ?thesis
    proof (cases "GetLuaFiles E ?dir")
      case (Inl err)
      with None Cons.prems(1) show ?thesis by (simp add: Let_def)
    next
      case fs': (Inr fs')
      obtain r st' where l: "loadSubtopics E t j ?dir fs' st = (r, st')"
        by (cases "loadSubtopics E t j ?dir fs' st")
      note ld = loadRows_load [OF None fs', of "map Inr ids" st]
      have r: "r = None"
        using Cons.prems(1) ld l by (cases r) (auto simp del: loadRows.simps)
      have step: "loadRows E t (map Inr (j # ids)) st = loadRows E t (map Inr ids) st'"
        using ld l r by (simp del: loadRows.simps)
      show ?thesis
      proof (cases "j = i")
        case True
        with fs' i(2) have "fs' = fs" by simp
        with loadSubtopics_loaded [of E t j ?dir fs' st f x] l r f True
        have "slot (lsList st') ?vp \<noteq> []" by simp
        moreover obtain ys where
          "slot (lsList (snd (loadRows E t (map Inr ids) st'))) ?vp = slot (lsList st') ?vp @ ys"
          using loadRows_slots_grow [of E t "map Inr ids" st' ?vp] by blast
        ultimately show ?thesis using step by simp
      next
        case False
        with Cons.prems(2) have "i \<in> set ids" by simp
        moreover have "fst (loadRows E t (map Inr ids) st') = None"
          using Cons.prems(1) step by simp
        ultimately show ?thesis using Cons.IH [of st'] step by simp
      qed
    qed
  next
    case (Some a)
    obtain err ne where a: "a = (err, ne)" by (cases a)
    let ?st = "if ne then st\<lparr>lsLog := lsLog st @ [''Missing '' @ t @ '' directory in extension '' @ j]\<rparr>
          else st"
    have step: "loadRows E t (map Inr (j # ids)) st = loadRows E t (map Inr ids) ?st"
      using loadRows_skip [of E j t err ne "map Inr ids" st] Some a by (simp del: loadRows.simps)
    from Some i(1) have "j \<noteq> i" by auto
    with Cons.prems(2) have "i \<in> set ids" by simp
    moreover have "fst (loadRows E t (map Inr ids) ?st) = None"
      using Cons.prems(1) step by simp
    ultimately show ?thesis using Cons.IH [of ?st] step by simp
  qed
qed

lemma loadRows_page_error:
  assumes t: "t \<noteq> ''widgets''"
    and i: "Stat E (extensionDir i t) = None" "GetLuaFiles E (extensionDir i t) = Inr fs"
    and f: "f \<in> set fs" "DoFile E f (GetApplicationState E NewState) = Inl e"
  shows "\<forall>j \<in> set ids. Stat E (extensionDir j t) = None
       \<longrightarrow> (\<exists>fs. GetLuaFiles E (extensionDir j t) = Inr fs) \<Longrightarrow> i \<in> set ids \<Longrightarrow>
    \<exists>i' fs' f' e'. i' \<in> set ids \<and> Stat E (extensionDir i' t) = None
       \<and> GetLuaFiles E (extensionDir i' t) = Inr fs' \<and> f' \<in> set fs'
       \<and> DoFile E f' (GetApplicationState E NewState) = Inl e'
       \<and> fst (loadRows E t (map Inr ids) st) = Some (''extension: '' @ i' @ '' '' @ e')"
proof (induction ids arbitrary: st)
  case Nil
  then show ?case by simp
next
  case (Cons j ids)
  let ?dir = "extensionDir j t"
  have rest: "i \<in> set ids \<Longrightarrow>
    \<exists>i' fs' f' e'. i' \<in> set ids \<and> Stat E (extensionDir i' t) = None
       \<and> GetLuaFiles E (extensionDir i' t) = Inr fs' \<and> f' \<in> set fs'
       \<and> DoFile E f' (GetApplicationState E NewState) = Inl e'
       \<and> fst (loadRows E t (map Inr ids) st') = Some (''extension: '' @ i' @ '' '' @ e')" for st'
    using Cons.IH Cons.prems(1) by simp
  show ?case
  proof (cases "Stat E ?dir")
    case None
    with Cons.prems(1) obtain fs' where fs': "GetLuaFiles E ?dir = Inr fs'" by auto
    obtain r st' where l: "loadSubtopics E t j ?dir fs' st = (r, st')"
      by (cases "loadSubtopics E t j ?dir fs' st")
    note ld = loadRows_load [OF None fs', of "map Inr ids" st]
    show ?thesis
    proof (cases r)
      case r: None
      have step: "loadRows E t (map Inr (j # ids)) st = loadRows E t (map Inr ids) st'"
        using ld l r by (simp del: loadRows.simps)
      have "j \<noteq> i"
      proof
        assume "j = i"
        with fs' i(2) f(1) have "f \<in> set fs'" by simp
        from loadSubtopics_page_ok [OF t _ this, of E j ?dir st] l r f(2) show False by simp
      qed
      with Cons.prems(2) have "i \<in> set ids" by simp
      from rest [OF this, of st'] obtain i' fs2 f' e' where w: "i' \<in> set ids"
        "Stat E (extensionDir i' t) = None" "GetLuaFiles E (extensionDir i' t) = Inr fs2"
        "f' \<in> set fs2" "DoFile E f' (GetApplicationState E NewState) = Inl e'"
        "fst (loadRows E t (map Inr ids) st') = Some (''extension: '' @ i' @ '' '' @ e')"
        by blast
      from w(1) have "i' \<in> set (j # ids)" by simp
      with w show ?thesis
        unfolding step by blast
    next
      case (Some x)
      have res: "fst (loadRows E t (map Inr (j # ids)) st) = Some x"
        using ld l Some by (simp del: loadRows.simps)
      from loadSubtopics_page_error [OF t, of E j ?dir fs' st x] l Some
      obtain f' e' where "f' \<in> set fs'" "DoFile E f' (GetApplicationState E NewState) = Inl e'"
        "x = ''extension: '' @ j @ '' '' @ e'" by auto
      with res None fs' show ?thesis by (intro exI [of _ j] exI [of _ fs'] exI [of _ f'] exI [of _ e']) simp
    qed
  next
    case (Some a)
    obtain err ne where a: "a = (err, ne)" by (cases a)
    let ?st = "if ne then st\<lparr>lsLog := lsLog st @ [''Missing '' @ t @ '' directory in extension '' @ j]\<rparr>
          else st"
    have step: "loadRows E t (map Inr (j # ids)) st = loadRows E t (map Inr ids) ?st"
      using loadRows_skip [of E j t err ne "map Inr ids" st] Some a by (simp del: loadRows.simps)
    from Some i(1) have "j \<noteq> i" by auto
    with Cons.prems(2) have "i \<in> set ids" by simp
    from rest [OF this, of ?st] obtain i' fs2 f' e' where w: "i' \<in> set ids"
      "Stat E (extensionDir i' t) = None" "GetLuaFiles E (extensionDir i' t) = Inr fs2"
      "f' \<in> set fs2" "DoFile E f' (GetApplicationState E NewState) = Inl e'"
      "fst (loadRows E t (map Inr ids) ?st) = Some (''extension: '' @ i' @ '' '' @ e')"
      by blast
    from w(1) have "i' \<in> set (j # ids)" by simp
    with w show ?thesis
      unfolding step by blast
  qed
qed

lemma widget_kind: "stype @ ''s'' = ''widgets'' \<longleftrightarrow> stype = ''widget''"
  by (auto simp: append_eq_Cons_conv Cons_eq_append_conv)

text \<open>
  A script of an enabled extension that fails to load in \<^verbatim>\<open>LoadExtensions\<close>, in a
  resolution where the query, the scans and the directory listings succeed. In the widget
  pool the call completes without an error, the identifier of the failing widget (its file
  name without \<^verbatim>\<open>.lua\<close>) is no longer in the active widget list, and every script
  that did load has an instance under its virtual path. In a pool of any other kind the
  call stops at the first script that fails and returns
  \<^verbatim>\<open>extension: <id> <error>\<close> with the identifier of the extension that owns that
  script.
\<close>

lemma LoadExtensions_load_failure:
  assumes q: "Queryx E (extensionQuery (stype @ ''s'')) = Inr (map Inr ids)"
    and H: "\<forall>j \<in> set ids. Stat E (extensionDir j (stype @ ''s'')) = None
              \<longrightarrow> (\<exists>gs. GetLuaFiles E (extensionDir j (stype @ ''s'')) = Inr gs)"
    and i: "i \<in> set ids" "Stat E (extensionDir i (stype @ ''s'')) = None"
           "GetLuaFiles E (extensionDir i (stype @ ''s'')) = Inr fs"
    and f: "f \<in> set fs" "DoFile E f (GetApplicationState E NewState) = Inl e"
  shows "(stype = ''widget'' \<longrightarrow>
            fst (LoadExtensions E stype st) = None
          \<and> widgetName f \<notin> set (lsWidgets (snd (LoadExtensions E stype st)))
          \<and> (\<forall>j gs g x.
                j \<in> set ids \<and> Stat E (extensionDir j ''widgets'') = None
                \<and> GetLuaFiles E (extensionDir j ''widgets'') = Inr gs \<and> g \<in> set gs
                \<and> DoFile E g (GetApplicationState E NewState) = Inr x
              \<longrightarrow> slot (lsList (snd (LoadExtensions E stype st)))
                    (virtualPath E g (extensionDir j ''widgets'') ''widgets'') \<noteq> []))
       \<and> (stype \<noteq> ''widget'' \<longrightarrow>
            (\<exists>i' fs' f' e'.
                i' \<in> set ids \<and> GetLuaFiles E (extensionDir i' (stype @ ''s'')) = Inr fs'
                \<and> f' \<in> set fs' \<and> DoFile E f' (GetApplicationState E NewState) = Inl e'
                \<and> fst (LoadExtensions E stype st) = Some (''extension: '' @ i' @ '' '' @ e')))"
proof (intro conjI impI)
  let ?st = "st\<lparr>lsList := Map.empty\<rparr>"
  have L: "LoadExtensions E stype st = loadRows E (stype @ ''s'') (map Inr ids) ?st"
    by (simp add: LoadExtensions_def q)
  {
    assume w: "stype = ''widget''"
    then have t: "stype @ ''s'' = ''widgets''" by simp
    show "fst (LoadExtensions E stype st) = None"
      unfolding L t using H [unfolded t] by (rule loadRows_widgets_no_error)
    show "widgetName f \<notin> set (lsWidgets (snd (LoadExtensions E stype st)))"
      unfolding L t using H [unfolded t] i [unfolded t] f by (rule loadRows_widgets_removed)
    show "\<forall>j gs g x.
                j \<in> set ids \<and> Stat E (extensionDir j ''widgets'') = None
                \<and> GetLuaFiles E (extensionDir j ''widgets'') = Inr gs \<and> g \<in> set gs
                \<and> DoFile E g (GetApplicationState E NewState) = Inr x
              \<longrightarrow> slot (lsList (snd (LoadExtensions E stype st)))
                    (virtualPath E g (extensionDir j ''widgets'') ''widgets'') \<noteq> []"
    proof (intro allI impI)
      fix j gs g x
      assume a: "j \<in> set ids \<and> Stat E (extensionDir j ''widgets'') = None
                \<and> GetLuaFiles E (extensionDir j ''widgets'') = Inr gs \<and> g \<in> set gs
                \<and> DoFile E g (GetApplicationState E NewState) = Inr x"
      have n: "fst (loadRows E ''widgets'' (map Inr ids) ?st) = None"
        using H [unfolded t] by (rule loadRows_widgets_no_error)
      from a have a1: "Stat E (extensionDir j ''widgets'') = None"
        and a2: "GetLuaFiles E (extensionDir j ''widgets'') = Inr gs"
        and a3: "g \<in> set gs" and a4: "DoFile E g (GetApplicationState E NewState) = Inr x"
        and a5: "j \<in> set ids" by simp_all
      show "slot (lsList (snd (LoadExtensions E stype st)))
                    (virtualPath E g (extensionDir j ''widgets'') ''widgets'') \<noteq> []"
        unfolding L t using loadRows_loaded [OF a1 a2 a3 a4 n a5] .
    qed
  }
  {
    assume "stype \<noteq> ''widget''"
    then have t: "stype @ ''s'' \<noteq> ''widgets''" by (simp add: widget_kind)
    from loadRows_page_error [OF t i(2,3) f H i(1), of ?st]
    show "\<exists>i' fs' f' e'.
                i' \<in> set ids \<and> GetLuaFiles E (extensionDir i' (stype @ ''s'')) = Inr fs'
                \<and> f' \<in> set fs' \<and> DoFile E f' (GetApplicationState E NewState) = Inl e'
                \<and> fst (LoadExtensions E stype st) = Some (''extension: '' @ i' @ '' '' @ e')"
      unfolding L by blast
  }
qed

lemma query_widgets:
  "extensionQuery ''widgets'' = ''SELECT extension_id FROM castro_extension_widgets WHERE enabled = 1''"
  by code_simp

lemma dir_shop: "extensionDir ''shop'' ''widgets'' = ''extensions/shop/widgets''"
  by code_simp

lemma dir_news: "extensionDir ''news'' ''widgets'' = ''extensions/news/widgets''"
  by code_simp

lemma name_broken: "widgetName ''extensions/shop/widgets/broken/broken.lua'' = ''broken''"
  by code_simp

lemma vp_widget_ascii:
  "toLowerASCII (Replace ''extensions/shop/widgets/shop/shop.lua'' ''extensions/shop/widgets''
     ''widgets'') = ''widgets/shop/shop.lua''"
  by code_simp

lemma vp_widget:
  assumes "ToLower E = toLowerASCII"
  shows "virtualPath E ''extensions/shop/widgets/shop/shop.lua'' ''extensions/shop/widgets''
     ''widgets'' = ''widgets/shop/shop.lua''"
  unfolding virtualPath_def assms by (rule vp_widget_ascii)

lemma LoadExtensions_demo:
  "fst (LoadExtensions demoExtern ''widget'' demoLoadState) = None
   \<and> ''broken'' \<in> set (lsWidgets demoLoadState)
   \<and> ''broken'' \<notin> set (lsWidgets (snd (LoadExtensions demoExtern ''widget'' demoLoadState)))
   \<and> slot (lsList (snd (LoadExtensions demoExtern ''widget'' demoLoadState)))
        ''widgets/shop/shop.lua'' \<noteq> []
   \<and> (\<exists>i' e'. fst (LoadExtensions brokenExtern ''page'' demoLoadState)
        = Some (''extension: '' @ i' @ '' '' @ e'))"
proof -
  have q: "Queryx demoExtern (extensionQuery (''widget'' @ ''s'')) = Inr (map Inr [''shop'', ''news''])"
    by (simp add: query_widgets demoExtern_def)
  have H: "\<forall>j \<in> set [''shop'', ''news'']. Stat demoExtern (extensionDir j (''widget'' @ ''s'')) = None
      \<longrightarrow> (\<exists>gs. GetLuaFiles demoExtern (extensionDir j (''widget'' @ ''s'')) = Inr gs)"
    by (simp add: dir_shop dir_news demoExtern_def)
  have i: "''shop'' \<in> set [''shop'', ''news'']"
    "Stat demoExtern (extensionDir ''shop'' (''widget'' @ ''s'')) = None"
    "GetLuaFiles demoExtern (extensionDir ''shop'' (''widget'' @ ''s'')) =
       Inr [''extensions/shop/widgets/shop/shop.lua'', ''extensions/shop/widgets/broken/broken.lua'']"
    by (simp_all add: dir_shop demoExtern_def)
  have f: "''extensions/shop/widgets/broken/broken.lua''
       \<in> set [''extensions/shop/widgets/shop/shop.lua'', ''extensions/shop/widgets/broken/broken.lua'']"
    "DoFile demoExtern ''extensions/shop/widgets/broken/broken.lua''
       (GetApplicationState demoExtern NewState) = Inl ''cannot open''"
    by (simp_all add: demoExtern_def)
  note w = LoadExtensions_load_failure [OF q H i f, of demoLoadState, THEN conjunct1, rule_format, OF refl]
  from w have w1: "fst (LoadExtensions demoExtern ''widget'' demoLoadState) = None"
    by (rule conjunct1)
  from w have w2: "''broken'' \<notin> set (lsWidgets (snd (LoadExtensions demoExtern ''widget'' demoLoadState)))"
    unfolding name_broken by (rule conjunct2 [THEN conjunct1])
  have g: "''shop'' \<in> set [''shop'', ''news'']
     \<and> Stat demoExtern (extensionDir ''shop'' ''widgets'') = None
     \<and> GetLuaFiles demoExtern (extensionDir ''shop'' ''widgets'') =
       Inr [''extensions/shop/widgets/shop/shop.lua'', ''extensions/shop/widgets/broken/broken.lua'']
     \<and> ''extensions/shop/widgets/shop/shop.lua''
         \<in> set [''extensions/shop/widgets/shop/shop.lua'', ''extensions/shop/widgets/broken/broken.lua'']
     \<and> DoFile demoExtern ''extensions/shop/widgets/shop/shop.lua''
          (GetApplicationState demoExtern NewState) = Inr (GetApplicationState demoExtern NewState)"
    by (simp add: dir_shop demoExtern_def)
  from w [THEN conjunct2, THEN conjunct2, rule_format, OF g]
  have w3: "slot (lsList (snd (LoadExtensions demoExtern ''widget'' demoLoadState)))
        ''widgets/shop/shop.lua'' \<noteq> []"
    by (simp add: dir_shop vp_widget)
  have q': "Queryx brokenExtern (extensionQuery (''page'' @ ''s'')) = Inr (map Inr [''42''])"
    by (simp add: brokenExtern_def)
  have H': "\<forall>j \<in> set [''42'']. Stat brokenExtern (extensionDir j (''page'' @ ''s'')) = None
      \<longrightarrow> (\<exists>gs. GetLuaFiles brokenExtern (extensionDir j (''page'' @ ''s'')) = Inr gs)"
    by (simp add: dir_42 brokenExtern_def demoExtern_def)
  have i': "''42'' \<in> set [''42'']"
    "Stat brokenExtern (extensionDir ''42'' (''page'' @ ''s'')) = None"
    "GetLuaFiles brokenExtern (extensionDir ''42'' (''page'' @ ''s'')) =
       Inr [''extensions/42/pages/Index.lua'', ''extensions/42/pages/shop.lua'']"
    by (simp_all add: dir_42 brokenExtern_def demoExtern_def)
  have f': "''extensions/42/pages/shop.lua''
       \<in> set [''extensions/42/pages/Index.lua'', ''extensions/42/pages/shop.lua'']"
    "DoFile brokenExtern ''extensions/42/pages/shop.lua''
       (GetApplicationState brokenExtern NewState) = Inl ''cannot open''"
    by (simp_all add: brokenExtern_def)
  have ne: "''page'' \<noteq> ''widget''" by simp
  from LoadExtensions_load_failure [OF q' H' i' f', of demoLoadState, THEN conjunct2, rule_format, OF ne]
  have w4: "\<exists>i' e'. fst (LoadExtensions brokenExtern ''page'' demoLoadState)
        = Some (''extension: '' @ i' @ '' '' @ e')"
    by blast
  have "''broken'' \<in> set (lsWidgets demoLoadState)"
    by (simp add: demoLoadState_def)
  with w1 w2 w3 w4 show ?thesis by blast
qed

text \<open>
  C5. The widget half holds: in the widget pool a script that fails to load is logged,
  removed from the active widget list and skipped. The page half does not: the only pool
  is the widget pool, pages are resolved by \<^verbatim>\<open>CompileExtensions\<close>, and there a script
  of extension 42 that does not compile ends the call with the error of
  \<^verbatim>\<open>CompileLua\<close> as it is, the identifier of the extension nowhere in it, where
  \<^verbatim>\<open>LoadExtensions\<close> on the same installation returns
  \<^verbatim>\<open>extension: 42 ...\<close>.
\<close>

theorem CompileExtensions_error_unwrapped:
  "CompileLua brokenExtern ''extensions/42/pages/shop.lua'' = Inl ''syntax error''
   \<and> fst (CompileExtensions brokenExtern emptyRegistry ''pages'') = Some ''syntax error''
   \<and> fst (LoadExtensions brokenExtern ''page'' demoLoadState) = Some ''extension: 42 cannot open''
   \<and> fst (LoadExtensions demoExtern ''widget'' demoLoadState) = None
   \<and> ''broken'' \<notin> set (lsWidgets (snd (LoadExtensions demoExtern ''widget'' demoLoadState)))"
proof -
  have lb [simp]: "ToLower brokenExtern = toLowerASCII"
    by (simp add: brokenExtern_def)
  have 1: "CompileLua brokenExtern ''extensions/42/pages/shop.lua'' = Inl ''syntax error''"
    by (simp add: brokenExtern_def)
  have 2: "fst (CompileExtensions brokenExtern emptyRegistry ''pages'') = Some ''syntax error''"
    by (simp add: CompileExtensions_def dir_42 vp_index brokenExtern_def demoExtern_def
        compileExtensionFn_def dirEntry_def fileEntry_def HasSuffix_def)
  have 3: "fst (LoadExtensions brokenExtern ''page'' demoLoadState)
      = Some ''extension: 42 cannot open''"
    by (simp add: LoadExtensions_def dir_42 vp_index brokenExtern_def demoExtern_def
        demoLoadState_def emptyHeap_def NewState_def slot_def)
  from LoadExtensions_demo have
    "fst (LoadExtensions demoExtern ''widget'' demoLoadState) = None
     \<and> ''broken'' \<notin> set (lsWidgets (snd (LoadExtensions demoExtern ''widget'' demoLoadState)))"
    by blast
  with 1 2 3 show ?thesis by blast
qed

subsection \<open>Binding a player\<close>

lemma map_of_filter_key:
  "map_of (filter (\<lambda>kv. fst kv \<noteq> k) t) k' = (if k' = k then None else map_of t k')"
  by (induction t) auto

lemma GetField_SetField:
  "GetField (SetField t k v) k' = (if k' = k then v else GetField t k')"
  by (simp add: GetField_def SetField_def map_of_filter_key)

lemma GetField_MergeTableFields:
  "k \<notin> fst ` set src \<Longrightarrow> GetField (MergeTableFields src dest) k = GetField dest k"
  unfolding MergeTableFields_def
  by (induction src arbitrary: dest) (auto simp: GetField_SetField)

lemma GetField_SetFuncs:
  "k \<notin> set names \<Longrightarrow> GetField (SetFuncs t names) k = GetField t k"
  unfolding SetFuncs_def
  by (induction names arbitrary: t) (auto simp: GetField_SetField)

lemma createPlayerMetaTable_backing:
  assumes "''__player'' \<notin> fst ` set (StructToTable D player)"
      and "''__player'' \<notin> set (playerMethods D)"
  shows "getPlayerObject [LTable (createPlayerMetaTable D player)] = Inr player"
  using assms
  by (simp add: getPlayerObject_def ToTable_def Get_def createPlayerMetaTable_def
      GetField_MergeTableFields GetField_SetFuncs GetField_SetField)

text \<open>
  C7, as stated, fails: a name that does not exist and a database that cannot be reached
  are different errors of the data layer, and \<^verbatim>\<open>PlayerConstructor\<close> answers both
  with the same value, nil.
\<close>

theorem PlayerConstructor_errors_collapse:
  "GetPlayerByName demoData ''alice'' = Inl ''sql: no rows in result set''
   \<and> GetPlayerByName downData ''alice'' = Inl ''dial tcp: connection refused''
   \<and> PlayerConstructor demoData [LString ''alice''] = [LNil]
   \<and> PlayerConstructor downData [LString ''alice''] = [LNil]
   \<and> PlayerConstructor demoData [LString ''alice''] = PlayerConstructor downData [LString ''alice'']"
  by (simp add: PlayerConstructor_def playerTableConstructor_def Get_def ToString_def
      demoData_def downData_def)

text \<open>
  C7, amended. For a numeric or a string argument: whenever the lookup of the data layer
  reports an error, whichever it is, \<^verbatim>\<open>PlayerConstructor\<close> pushes nil; whenever the
  lookup yields a player it pushes a handle whose \<^verbatim>\<open>__player\<close> reference is that
  player, not nil (no method and no projected field being itself named
  \<^verbatim>\<open>__player\<close>).
\<close>

theorem PlayerConstructor_bind:
  assumes "''__player'' \<notin> set (playerMethods D)"
  shows "(\<forall>n. Get L 1 = LNumber n \<longrightarrow>
            (\<forall>err. GetPlayerByID D n = Inl err \<longrightarrow> PlayerConstructor D L = [LNil])
          \<and> (\<forall>p. GetPlayerByID D n = Inr p \<and> ''__player'' \<notin> fst ` set (StructToTable D (Some p))
                \<longrightarrow> (\<exists>t. PlayerConstructor D L = [LTable t]
                       \<and> getPlayerObject [LTable t] = Inr (Some p))))
       \<and> (\<forall>name. Get L 1 = LString name \<longrightarrow>
            (\<forall>err. GetPlayerByName D name = Inl err \<longrightarrow> PlayerConstructor D L = [LNil])
          \<and> (\<forall>p. GetPlayerByName D name = Inr p \<and> ''__player'' \<notin> fst ` set (StructToTable D (Some p))
                \<longrightarrow> (\<exists>t. PlayerConstructor D L = [LTable t]
                       \<and> getPlayerObject [LTable t] = Inr (Some p))))"
proof (intro conjI allI impI)
  fix n err
  assume "Get L 1 = LNumber n" "GetPlayerByID D n = Inl err"
  then show "PlayerConstructor D L = [LNil]"
    by (simp add: PlayerConstructor_def playerTableConstructor_def ToInt64_def ToInt_def)
next
  fix n p
  assume g: "Get L 1 = LNumber n"
    and "GetPlayerByID D n = Inr p \<and> ''__player'' \<notin> fst ` set (StructToTable D (Some p))"
  then have l: "GetPlayerByID D n = Inr p" and s: "''__player'' \<notin> fst ` set (StructToTable D (Some p))"
    by simp_all
  from g l have "PlayerConstructor D L = [LTable (createPlayerMetaTable D (Some p))]"
    by (simp add: PlayerConstructor_def playerTableConstructor_def ToInt64_def ToInt_def)
  with createPlayerMetaTable_backing [OF s assms]
  show "\<exists>t. PlayerConstructor D L = [LTable t] \<and> getPlayerObject [LTable t] = Inr (Some p)"
    by blast
next
  fix name err
  assume "Get L 1 = LString name" "GetPlayerByName D name = Inl err"
  then show "PlayerConstructor D L = [LNil]"
    by (simp add: PlayerConstructor_def playerTableConstructor_def ToString_def)
next
  fix name p
  assume g: "Get L 1 = LString name"
    and "GetPlayerByName D name = Inr p \<and> ''__player'' \<notin> fst ` set (StructToTable D (Some p))"
  then have l: "GetPlayerByName D name = Inr p" and s: "''__player'' \<notin> fst ` set (StructToTable D (Some p))"
    by simp_all
  from g l have "PlayerConstructor D L = [LTable (createPlayerMetaTable D (Some p))]"
    by (simp add: PlayerConstructor_def playerTableConstructor_def ToString_def)
  with createPlayerMetaTable_backing [OF s assms]
  show "\<exists>t. PlayerConstructor D L = [LTable t] \<and> getPlayerObject [LTable t] = Inr (Some p)"
    by blast
qed

lemma demo_methods: "''__player'' \<notin> set (playerMethods demoData)"
  by (simp add: demoData_def)

lemma demo_fields: "''__player'' \<notin> fst ` set (StructToTable demoData (Some bob))"
  by (simp add: demoData_def)

theorem PlayerConstructor_bind_witness:
  "PlayerConstructor demoData [LString ''alice''] = [LNil]
   \<and> PlayerConstructor downData [LNumber 7] = [LNil]
   \<and> (\<exists>t. PlayerConstructor demoData [LString ''bob''] = [LTable t]
          \<and> getPlayerObject [LTable t] = Inr (Some bob))
   \<and> (\<exists>t. PlayerConstructor demoData [LNumber 7] = [LTable t]
          \<and> getPlayerObject [LTable t] = Inr (Some bob))"
proof -
  have m': "''__player'' \<notin> set (playerMethods downData)"
    by (simp add: downData_def demoData_def)
  have a: "Get [LString ''alice''] 1 = LString ''alice''"
    "GetPlayerByName demoData ''alice'' = Inl ''sql: no rows in result set''"
    by (simp_all add: Get_def demoData_def)
  have b: "Get [LNumber 7] 1 = LNumber 7"
    "GetPlayerByID downData 7 = Inl ''dial tcp: connection refused''"
    by (simp_all add: Get_def downData_def)
  have c: "Get [LString ''bob''] 1 = LString ''bob''"
    "GetPlayerByName demoData ''bob'' = Inr bob"
    by (simp_all add: Get_def demoData_def)
  have d: "GetPlayerByID demoData 7 = Inr bob"
    by (simp add: demoData_def)
  from PlayerConstructor_bind [OF demo_methods, of "[LString ''alice'']"] a
  have 1: "PlayerConstructor demoData [LString ''alice''] = [LNil]" by blast
  from PlayerConstructor_bind [OF m', of "[LNumber 7]"] b
  have 2: "PlayerConstructor downData [LNumber 7] = [LNil]" by blast
  from PlayerConstructor_bind [OF demo_methods, of "[LString ''bob'']"] c demo_fields
  have 3: "\<exists>t. PlayerConstructor demoData [LString ''bob''] = [LTable t]
          \<and> getPlayerObject [LTable t] = Inr (Some bob)" by blast
  from PlayerConstructor_bind [OF demo_methods, of "[LNumber 7]"] b(1) d demo_fields
  have 4: "\<exists>t. PlayerConstructor demoData [LNumber 7] = [LTable t]
          \<and> getPlayerObject [LTable t] = Inr (Some bob)" by blast
  from 1 2 3 4 show ?thesis by blast
qed

subsection \<open>Custom fields and the column catalog\<close>

lemma setCustomFieldLoop_absent:
  "fieldName \<notin> set names \<Longrightarrow>
     setCustomFieldLoop D L player fieldName fieldValue names tr = (Inr [], tr, None)"
  by (induction names) auto

lemma getCustomFieldLoop_absent:
  "fieldName \<notin> set names \<Longrightarrow> getCustomFieldLoop D player fieldName names tr = (Inr [LNil], tr)"
  by (induction names) auto

lemma setCustomFieldLoop_calls:
  "DBExec q a \<in> set (fst (snd (setCustomFieldLoop D L player fieldName fieldValue names tr))) \<Longrightarrow>
     DBExec q a \<in> set tr \<or> (fieldName \<in> set names \<and> q = updateQuery fieldName)"
proof (induction names)
  case Nil
  then show ?case by simp
next
  case (Cons column rest)
  show ?case
  proof (cases "column = fieldName")
    case True
    with Cons.prems show ?thesis
      by (auto simp: Let_def split: option.splits sum.splits)
  next
    case False
    with Cons show ?thesis by auto
  qed
qed

lemma getCustomFieldLoop_calls:
  "DBGet q a \<in> set (snd (getCustomFieldLoop D player fieldName names tr)) \<Longrightarrow>
     DBGet q a \<in> set tr \<or> (fieldName \<in> set names \<and> q = selectQuery fieldName)"
proof (induction names)
  case Nil
  then show ?case by simp
next
  case (Cons column rest)
  show ?case
  proof (cases "column = fieldName")
    case True
    with Cons.prems show ?thesis
      by (auto split: option.splits sum.splits)
  next
    case False
    with Cons show ?thesis by auto
  qed
qed

text \<open>
  C8. With the column catalog read, a field name that is not in it makes
  \<^verbatim>\<open>SetPlayerCustomField\<close> return without a failure and without any call but the
  catalog query, and makes \<^verbatim>\<open>GetPlayerCustomField\<close> push nil, again with no other
  call. For any field name, an \<^verbatim>\<open>UPDATE\<close> or \<^verbatim>\<open>SELECT\<close> on the players table
  that either method issues is built from a name of the catalog.
\<close>

theorem custom_field_allow_list:
  assumes p: "getPlayerObject L = Inr player"
      and c: "Select D catalogQuery [StrArg ''players'', StrArg (mysqlDatabase D)] = Inr nameList"
  shows "(ToString D L 2 \<notin> set nameList \<longrightarrow>
            SetPlayerCustomField D L =
              (Inr [], [DBSelect catalogQuery [StrArg ''players'', StrArg (mysqlDatabase D)]], None)
          \<and> GetPlayerCustomField D L =
              (Inr [LNil], [DBSelect catalogQuery [StrArg ''players'', StrArg (mysqlDatabase D)]]))
       \<and> (\<forall>q a. DBExec q a \<in> set (fst (snd (SetPlayerCustomField D L)))
              \<longrightarrow> (\<exists>n \<in> set nameList. q = updateQuery n))
       \<and> (\<forall>q a. DBGet q a \<in> set (snd (GetPlayerCustomField D L))
              \<longrightarrow> (\<exists>n \<in> set nameList. q = selectQuery n))"
proof -
  let ?tr = "[DBSelect catalogQuery [StrArg ''players'', StrArg (mysqlDatabase D)]]"
  have S: "SetPlayerCustomField D L =
      setCustomFieldLoop D L player (ToString D L 2) (Get L 3) nameList ?tr"
    by (simp add: SetPlayerCustomField_def p c)
  have G: "GetPlayerCustomField D L = getCustomFieldLoop D player (ToString D L 2) nameList ?tr"
    by (simp add: GetPlayerCustomField_def p c)
  have 1: "ToString D L 2 \<notin> set nameList \<longrightarrow>
            SetPlayerCustomField D L = (Inr [], ?tr, None)
          \<and> GetPlayerCustomField D L = (Inr [LNil], ?tr)"
    by (simp add: S G setCustomFieldLoop_absent getCustomFieldLoop_absent)
  have 2: "\<exists>n \<in> set nameList. q = updateQuery n"
    if "DBExec q a \<in> set (fst (snd (SetPlayerCustomField D L)))" for q a
    using setCustomFieldLoop_calls [of q a D L player "ToString D L 2" "Get L 3" nameList ?tr] that
    by (auto simp: S)
  have 3: "\<exists>n \<in> set nameList. q = selectQuery n"
    if "DBGet q a \<in> set (snd (GetPlayerCustomField D L))" for q a
    using getCustomFieldLoop_calls [of q a D player "ToString D L 2" nameList ?tr] that
    by (auto simp: G)
  from 1 2 3 show ?thesis by blast
qed

lemma bobHandle_object: "getPlayerObject (bobHandle # args) = Inr (Some bob)"
proof -
  have "getPlayerObject [bobHandle] = Inr (Some bob)"
    unfolding bobHandle_def by (rule createPlayerMetaTable_backing [OF demo_fields demo_methods])
  then show ?thesis
    by (simp add: getPlayerObject_def ToTable_def Get_def)
qed

lemma demo_catalog:
  "Select demoData catalogQuery [StrArg ''players'', StrArg (mysqlDatabase demoData)]
     = Inr [''id'', ''name'', ''level'']"
  by (simp add: demoData_def)

theorem custom_field_allow_list_witness:
  "ToString demoData [bobHandle, LString ''unknown_column'', LNumber 1] 2 \<notin> set [''id'', ''name'', ''level'']
   \<and> fst (SetPlayerCustomField demoData [bobHandle, LString ''unknown_column'', LNumber 1]) = Inr []
   \<and> fst (GetPlayerCustomField demoData [bobHandle, LString ''unknown_column'', LNumber 1]) = Inr [LNil]
   \<and> fst (snd (SetPlayerCustomField demoData [bobHandle, LString ''unknown_column'', LNumber 1]))
       = [DBSelect catalogQuery [StrArg ''players'', StrArg ''castro'']]
   \<and> DBExec (updateQuery ''level'') [StringOf (LNumber 1), IntArg 7]
       \<in> set (fst (snd (SetPlayerCustomField demoData [bobHandle, LString ''level'', LNumber 1])))"
proof -
  let ?L = "[bobHandle, LString ''unknown_column'', LNumber 1]"
  have n: "ToString demoData ?L 2 \<notin> set [''id'', ''name'', ''level'']"
    by (simp add: ToString_def Get_def)
  have db: "mysqlDatabase demoData = ''castro''"
    by (simp add: demoData_def)
  from custom_field_allow_list [OF bobHandle_object demo_catalog, of "tl ?L"] n
  have "SetPlayerCustomField demoData ?L =
              (Inr [], [DBSelect catalogQuery [StrArg ''players'', StrArg (mysqlDatabase demoData)]], None)
          \<and> GetPlayerCustomField demoData ?L =
              (Inr [LNil], [DBSelect catalogQuery [StrArg ''players'', StrArg (mysqlDatabase demoData)]])"
    by simp
  moreover have "DBExec (updateQuery ''level'') [StringOf (LNumber 1), IntArg 7]
       \<in> set (fst (snd (SetPlayerCustomField demoData [bobHandle, LString ''level'', LNumber 1])))"
    by (simp add: SetPlayerCustomField_def bobHandle_object demo_catalog ToString_def Get_def
        Let_def) (simp add: demoData_def bob_def ToTable_def Get_def bobHandle_def)
  ultimately show ?thesis using n by (simp add: db)
qed

subsection \<open>Argument checks of the bound methods\<close>

lemma storage_methods_check_types:
  assumes "getPlayerObject L = Inr player"
  shows "(typeOf (Get L 2) \<noteq> LTNumber \<longrightarrow>
            GetPlayerStorageValue D L = (Inl (ArgError 1 ''Invalid key type. Expected number''), [])
          \<and> SetPlayerStorageValue D L = (Inl (ArgError 1 ''Invalid key type. Expected number''), []))
       \<and> (typeOf (Get L 2) = LTNumber \<and> typeOf (Get L 3) \<noteq> LTNumber \<longrightarrow>
            SetPlayerStorageValue D L = (Inl (ArgError 1 ''Invalid value type. Expected number''), []))"
  using assms by (simp add: GetPlayerStorageValue_def SetPlayerStorageValue_def Let_def)

text \<open>
  C9. \<^verbatim>\<open>SetPlayerBankBalance\<close> does not test the type of its argument: given a
  boolean, \<^verbatim>\<open>L.ToInt\<close> reads it as 0 and the balance is set to 0 with no failure
  raised, where \<^verbatim>\<open>SetPlayerStorageValue\<close> rejects the same value as a key.
\<close>

theorem SetPlayerBankBalance_unchecked:
  "typeOf (LBool True) \<noteq> LTNumber
   \<and> SetPlayerBankBalance demoData [bobHandle, LBool True] = (Inr [], [CallSetBalance bob 0])
   \<and> SetPlayerStorageValue demoData [bobHandle, LBool True, LNumber 1]
       = (Inl (ArgError 1 ''Invalid key type. Expected number''), [])"
  by (simp add: SetPlayerBankBalance_def SetPlayerStorageValue_def bobHandle_object ToInt_def
      Get_def Let_def) (simp add: demoData_def)

end
